theory Spec2Isabelle
  imports Main "HOL-Library.Word"
begin

section \<open>JavaScript strings\<close>

text \<open>
  A JavaScript string is a sequence of UTF-16 code units; \<open>length\<close>, \<open>slice\<close>, \<open>trim\<close>
  and a regular expression without the \<open>u\<close> flag all work on code units. String
  literals of the source are ASCII, written here as \<open>js ''...''\<close>.
\<close>

type_synonym js_string = "16 word list"

definition js :: "string \<Rightarrow> js_string" where
  "js s = map (\<lambda>c. of_nat (of_char c)) s"

definition isAsciiDigit :: "16 word \<Rightarrow> bool" where
  "isAsciiDigit c \<longleftrightarrow> 0x30 \<le> c \<and> c \<le> 0x39"

definition isAsciiLower :: "16 word \<Rightarrow> bool" where
  "isAsciiLower c \<longleftrightarrow> 0x61 \<le> c \<and> c \<le> 0x7A"

definition isAsciiUpper :: "16 word \<Rightarrow> bool" where
  "isAsciiUpper c \<longleftrightarrow> 0x41 \<le> c \<and> c \<le> 0x5A"

definition isAsciiAlnum :: "16 word \<Rightarrow> bool" where
  "isAsciiAlnum c \<longleftrightarrow> isAsciiLower c \<or> isAsciiUpper c \<or> isAsciiDigit c"

text \<open>
  \<open>String.prototype.trim\<close> strips the code units of WhiteSpace and LineTerminator
  (ECMAScript 12.2 and 12.3) from both ends: TAB, LF, VT, FF, CR, SP, NBSP, the
  Unicode space separators, LS, PS and the byte order mark.
\<close>

definition isWhiteSpace :: "16 word \<Rightarrow> bool" where
  "isWhiteSpace c \<longleftrightarrow>
     (0x0009 \<le> c \<and> c \<le> 0x000D) \<or> c = 0x0020 \<or> c = 0x00A0 \<or> c = 0x1680 \<or>
     (0x2000 \<le> c \<and> c \<le> 0x200A) \<or> c = 0x2028 \<or> c = 0x2029 \<or> c = 0x202F \<or>
     c = 0x205F \<or> c = 0x3000 \<or> c = 0xFEFF"

definition trim :: "js_string \<Rightarrow> js_string" where
  "trim s = rev (dropWhile isWhiteSpace (rev (dropWhile isWhiteSpace s)))"

text \<open>\<open>s.slice(a, b)\<close> for non-negative \<open>a\<close> and \<open>b\<close>: the code units from \<open>a\<close> up to, not including, \<open>b\<close>.\<close>

definition slice :: "nat \<Rightarrow> nat \<Rightarrow> js_string \<Rightarrow> js_string" where
  "slice a b s = drop a (take b s)"

text \<open>
  The pattern \<open>/[^a-z0-9]/gi\<close>. Without the \<open>u\<close> flag the \<open>i\<close> flag compares code
  units after \<open>toUpperCase\<close>, and never lets a code unit from 128 on stand for an
  ASCII one, so the class \<open>[a-z0-9]\<close> holds exactly the ASCII letters of both cases
  and the digits; the negated class matches every other code unit, one at a time.
\<close>

definition matches_pattern :: "16 word \<Rightarrow> bool" where
  "matches_pattern c \<longleftrightarrow> \<not> (isAsciiLower c \<or> isAsciiUpper c \<or> isAsciiDigit c)"

text \<open>\<open>s.replace(pattern, replacement)\<close> with the \<open>g\<close> flag and a one-code-unit pattern: every match gives way to the replacement string.\<close>

definition replace :: "(16 word \<Rightarrow> bool) \<Rightarrow> js_string \<Rightarrow> js_string \<Rightarrow> js_string" where
  "replace pattern replacement s = concat (map (\<lambda>c. if pattern c then replacement else [c]) s)"

text \<open>
  \<open>String.prototype.toLowerCase\<close> on the code units below 128, where it moves
  \<open>A\<close> to \<open>Z\<close> onto \<open>a\<close> to \<open>z\<close> and leaves the rest. The source calls it only on
  the result of the replacement above, which is ASCII (lemma \<open>replace_pattern_ascii\<close>).
\<close>

definition toLowerCase :: "js_string \<Rightarrow> js_string" where
  "toLowerCase s = map (\<lambda>c. if isAsciiUpper c then c + 0x20 else c) s"

text \<open>\<open>Number.prototype.toString\<close> of a non-negative integer such as \<open>Date.now()\<close>: its decimal digits.\<close>

fun toString :: "nat \<Rightarrow> js_string" where
  "toString n = (if n < 10 then [0x30 + of_nat n] else toString (n div 10) @ [0x30 + of_nat (n mod 10)])"

declare toString.simps [simp del]

section \<open>Export file names\<close>

text \<open>
  \<^verbatim>\<open>const sanitizedPrompt = text.prompt.slice(0, 50).replace(/[^a-z0-9]/gi, '-').toLowerCase();\<close>
  in \<open>exportText\<close>, and the same expression on \<open>prompt\<close> in \<open>downloadImage\<close>.
\<close>

definition sanitizedPrompt :: "js_string \<Rightarrow> js_string" where
  "sanitizedPrompt prompt = toLowerCase (replace matches_pattern (js ''-'') (slice 0 50 prompt))"

text \<open>\<^verbatim>\<open>link.download = `ai-generated-${sanitizedPrompt}-${Date.now()}.txt`\<close>, and \<open>.png\<close> for an image.\<close>

definition exportText_download :: "js_string \<Rightarrow> nat \<Rightarrow> js_string" where
  "exportText_download prompt now =
     js ''ai-generated-'' @ sanitizedPrompt prompt @ js ''-'' @ toString now @ js ''.txt''"

definition downloadImage_download :: "js_string \<Rightarrow> nat \<Rightarrow> js_string" where
  "downloadImage_download prompt now =
     js ''ai-generated-'' @ sanitizedPrompt prompt @ js ''-'' @ toString now @ js ''.png''"

section \<open>Values at the boundary of a component\<close>

text \<open>
  \<open>toast({title, description, variant})\<close>: the notification shown to the user. The
  variant is \<open>'destructive'\<close> for a failure and absent otherwise.
\<close>

datatype toast_variant = Default | Destructive

record toast =
  title :: js_string
  description :: js_string
  variant :: toast_variant

text \<open>
  A value that was thrown, or returned in the \<open>error\<close> field: \<open>message\<close> is its
  \<open>message\<close> property, \<open>None\<close> when it has none.
\<close>

datatype js_error = Error_value (message: "js_string option")

text \<open>
  What \<^verbatim>\<open>await supabase.functions.invoke(name, {body})\<close> comes back with. The remote
  service is outside the repository, so its answer is an input of the model.
  \<^item> \<open>Resolves payload error\<close>: the promise resolves with \<open>{data, error}\<close>; \<open>payload\<close> is
    the value of \<open>data?.text\<close> (of \<open>data?.imageUrl\<close> for an image), \<open>None\<close> when \<open>data\<close>
    is null or lacks the field; \<open>error\<close> is \<open>None\<close> when the field is null.
  \<^item> \<open>Rejects thrown\<close>: the promise rejects, so \<open>await\<close> throws; \<open>thrown\<close> is \<open>None\<close>
    when the thrown value is null or undefined.
\<close>

datatype gateway_reply =
    Resolves "js_string option" "js_error option"
  | Rejects "js_error option"

datatype js_exn = SyntaxError | TypeError

text \<open>How an \<open>async\<close> function ends: its promise is fulfilled, or rejected with an exception nothing caught.\<close>

datatype completion = Fulfilled | Rejected js_exn

text \<open>
  A JSON value as \<open>JSON.parse\<close> builds it. An object lists its properties in the
  order of the text, and a later property overrides an earlier one of the same
  name. The components never read the value of a number in such a value, so a
  number carries none.
\<close>

datatype json =
    JNull
  | JBool bool
  | JNumber
  | JString js_string
  | JArray "json list"
  | JObject "(js_string \<times> json) list"

text \<open>
  What \<open>JSON.parse\<close> returns when it does not throw. The source passes it to the
  state setter unchecked, so the collection can become any of these:
  \<^item> \<open>Parsed_list artifacts\<close>: an array whose elements are all artifacts of the type
    the state variable is declared with;
  \<^item> \<open>Parsed_array elements\<close>: any other array;
  \<^item> \<open>Parsed_null\<close>: null;
  \<^item> \<open>Parsed_scalar\<close>: a number or a boolean;
  \<^item> \<open>Parsed_string s\<close>: a string;
  \<^item> \<open>Parsed_object positive\<close>: an object that is not an array. The components
    evaluate \<open>collection.length > 0\<close> on such a collection, a comparison that
    ECMAScript defines through conversions of the \<open>length\<close> property, and call
    \<open>collection.map\<close> when it holds, which no property of a parsed object can be as
    a function. \<open>positive\<close> is false when the comparison evaluates to false, as it
    does for an object without a \<open>length\<close> property, and true when it evaluates to
    true or throws.
\<close>

datatype 'a parsed =
    Parsed_list "'a list"
  | Parsed_array "json list"
  | Parsed_null
  | Parsed_scalar
  | Parsed_string js_string
  | Parsed_object bool

text \<open>
  \<open>value.name\<close>, for a name that no prototype defines (\<open>id\<close>, \<open>content\<close>): reading a
  property of null throws, an object gives its property or undefined (\<open>None\<close>), and
  any other value gives undefined.
\<close>

fun property :: "js_string \<Rightarrow> json \<Rightarrow> js_exn + json option" where
  "property name JNull = Inl TypeError"
| "property name (JObject properties) = Inr (map_of (rev properties) name)"
| "property name v = Inr None"

text \<open>\<open>elements.map(callback)\<close> as far as exceptions go: the callback runs on each element in turn, and the first exception ends the loop.\<close>

fun map_elements :: "(json \<Rightarrow> js_exn + unit) \<Rightarrow> json list \<Rightarrow> js_exn + unit" where
  "map_elements callback [] = Inr ()"
| "map_elements callback (element # elements) =
     (case callback element of
        Inl exn \<Rightarrow> Inl exn
      | Inr rendered \<Rightarrow> map_elements callback elements)"

text \<open>\<open>s.split(/\s+/)\<close>: the pieces of \<open>s\<close> between its maximal runs of white space; \<open>\s\<close> matches the code units that \<open>trim\<close> strips.\<close>

function split_whitespace :: "js_string \<Rightarrow> js_string list" where
  "split_whitespace s =
     (if dropWhile (\<lambda>c. \<not> isWhiteSpace c) s = []
      then [takeWhile (\<lambda>c. \<not> isWhiteSpace c) s]
      else takeWhile (\<lambda>c. \<not> isWhiteSpace c) s #
           split_whitespace (dropWhile isWhiteSpace (dropWhile (\<lambda>c. \<not> isWhiteSpace c) s)))"
  by pat_completeness auto
termination
proof (relation "measure length")
  show "wf (measure length)" by simp
next
  fix s :: js_string
  assume rest: "dropWhile (\<lambda>c. \<not> isWhiteSpace c) s \<noteq> []"
  then obtain c cs where split: "dropWhile (\<lambda>c. \<not> isWhiteSpace c) s = c # cs"
    by (cases "dropWhile (\<lambda>c. \<not> isWhiteSpace c) s") auto
  from rest have "\<not> \<not> isWhiteSpace (hd (dropWhile (\<lambda>c. \<not> isWhiteSpace c) s))"
    by (rule hd_dropWhile)
  then have "isWhiteSpace c" by (simp add: split)
  then have "length (dropWhile isWhiteSpace (c # cs)) \<le> length cs"
    by (simp add: length_dropWhile_le)
  moreover have "length (c # cs) \<le> length s"
    unfolding split [symmetric] by (rule length_dropWhile_le)
  ultimately have "length (dropWhile isWhiteSpace (dropWhile (\<lambda>c. \<not> isWhiteSpace c) s)) < length s"
    by (simp add: split)
  then show "(dropWhile isWhiteSpace (dropWhile (\<lambda>c. \<not> isWhiteSpace c) s), s) \<in> measure length"
    by simp
qed

declare split_whitespace.simps [simp del]

section \<open>The text generator\<close>

text \<open>\<^verbatim>\<open>interface GeneratedText { id: string; content: string; prompt: string; type: string; timestamp: number; }\<close>\<close>

record GeneratedText =
  text_id :: js_string
  text_content :: js_string
  text_prompt :: js_string
  text_type :: js_string
  text_timestamp :: nat

text \<open>The body of a \<open>generate-text\<close> invocation: \<^verbatim>\<open>{ prompt, type }\<close>.\<close>

record text_body =
  body_prompt :: js_string
  body_type :: js_string

text \<open>
  One mounted \<open>TextGenerator\<close>: its four state variables, and what it has done to the
  world around it: the toasts shown (oldest first), the bodies of the gateway
  invocations issued (oldest first), and the browser's \<open>localStorage\<close>.
\<close>

record TextGenerator =
  tg_prompt :: js_string
  tg_type :: js_string
  tg_isGenerating :: bool
  tg_texts :: "GeneratedText list"
  tg_toasts :: "toast list"
  tg_invoked :: "text_body list"
  tg_localStorage :: "js_string \<rightharpoonup> js_string"

definition texts_key :: js_string where
  "texts_key = js ''ai-studio-texts''"

text \<open>
  \<^verbatim>\<open>useEffect(() => { if (texts.length > 0) localStorage.setItem('ai-studio-texts', JSON.stringify(texts)); }, [texts])\<close>
  React runs it after every render in which \<open>texts\<close> is a new array, that is after
  every call of \<open>setTexts\<close> in this component. \<open>JSON.stringify\<close> belongs to the
  platform and is a parameter.
\<close>

definition saveTexts_effect :: "(GeneratedText list \<Rightarrow> js_string) \<Rightarrow> TextGenerator \<Rightarrow> TextGenerator" where
  "saveTexts_effect stringify w =
     (if length (tg_texts w) > 0
      then w\<lparr>tg_localStorage := (tg_localStorage w)(texts_key \<mapsto> stringify (tg_texts w))\<rparr>
      else w)"

text \<open>
  The effect that loads the texts on mount. \<open>JSON.parse\<close> belongs to the platform and
  is a parameter; \<open>Inl\<close> is the exception it throws, which the \<open>catch\<close> block only
  logs. The result is \<open>Inl\<close> if the effect throws, \<open>Inr (Some parsed)\<close> if it calls
  \<open>setTexts(parsed)\<close> and \<open>Inr None\<close> if it leaves the state alone.
\<close>

definition loadTexts_effect ::
  "(js_string \<Rightarrow> js_exn + GeneratedText parsed) \<Rightarrow> TextGenerator \<Rightarrow>
   js_exn + GeneratedText parsed option" where
  "loadTexts_effect parse w =
     (case tg_localStorage w texts_key of
        None \<Rightarrow> Inr None
      | Some savedTexts \<Rightarrow>
          if savedTexts = [] then Inr None
          else (case parse savedTexts of
                  Inl error \<Rightarrow> Inr None
                | Inr parsed \<Rightarrow> Inr (Some parsed)))"

text \<open>
  \<^verbatim>\<open>const getWordCount = (text) => text.trim().split(/\s+/).filter(word => word.length > 0).length\<close>
  on whatever the \<open>content\<close> of an element is: \<open>text.trim()\<close> throws unless \<open>text\<close> is a
  string.
\<close>

definition getWordCount :: "json option \<Rightarrow> js_exn + nat" where
  "getWordCount text =
     (case text of
        Some (JString s) \<Rightarrow>
          Inr (length (filter (\<lambda>word. length word > 0) (split_whitespace (trim s))))
      | _ \<Rightarrow> Inl TypeError)"

text \<open>
  The callback of \<open>texts.map\<close> in the render, as far as exceptions go: it reads
  \<open>text.id\<close> for the key and calls \<open>getWordCount(text.content)\<close>; once that has
  returned, \<open>text.content\<close> is a string and the other reads cannot throw.
\<close>

definition texts_map_callback :: "json \<Rightarrow> js_exn + unit" where
  "texts_map_callback text =
     (case property (js ''id'') text of
        Inl exn \<Rightarrow> Inl exn
      | Inr key \<Rightarrow>
          (case property (js ''content'') text of
             Inl exn \<Rightarrow> Inl exn
           | Inr content \<Rightarrow>
               (case getWordCount content of
                  Inl exn \<Rightarrow> Inl exn
                | Inr wordCount \<Rightarrow> Inr ())))"

text \<open>
  What the render does with the collection,
  \<^verbatim>\<open>{texts.length > 0 && (... texts.map((text) => ...) ...)}\<close> and \<^verbatim>\<open>{texts.length === 0 && (...)}\<close>,
  as far as exceptions go: \<open>Inl\<close> is the exception the render throws. Reading
  \<open>length\<close> of null throws; a number or a boolean has no \<open>length\<close>; a string or an
  object of positive \<open>length\<close> has no function \<open>map\<close> to call. What React does with
  the elements a render returns is not part of the model.
\<close>

definition TextGenerator_render :: "GeneratedText parsed \<Rightarrow> js_exn + unit" where
  "TextGenerator_render texts =
     (case texts of
        Parsed_list artifacts \<Rightarrow> Inr ()
      | Parsed_array elements \<Rightarrow>
          if length elements > 0 then map_elements texts_map_callback elements else Inr ()
      | Parsed_null \<Rightarrow> Inl TypeError
      | Parsed_scalar \<Rightarrow> Inr ()
      | Parsed_string s \<Rightarrow> if length s > 0 then Inl TypeError else Inr ()
      | Parsed_object positive \<Rightarrow> if positive then Inl TypeError else Inr ())"

text \<open>The state of the first render: \<^verbatim>\<open>useState('')\<close>, \<^verbatim>\<open>useState('creative')\<close>, \<^verbatim>\<open>useState(false)\<close>, \<^verbatim>\<open>useState([])\<close>.\<close>

definition TextGenerator_initial :: "(js_string \<rightharpoonup> js_string) \<Rightarrow> TextGenerator" where
  "TextGenerator_initial storage =
     \<lparr>tg_prompt = [], tg_type = js ''creative'', tg_isGenerating = False, tg_texts = [],
      tg_toasts = [], tg_invoked = [], tg_localStorage = storage\<rparr>"

text \<open>
  Mounting: the first render, then the effects in source order. The saving effect
  first sees the empty \<open>texts\<close> of the first render and writes nothing. When the
  loading effect has called \<open>setTexts\<close>, React renders again with the parsed value as
  \<open>texts\<close>, and after that render runs the saving effect again. The result is \<open>Inl\<close>
  if that render throws, the state if the collection is of the declared type, and
  \<open>Inr None\<close> if the render has returned with a collection of another type, which
  the state of this model does not hold.
\<close>

definition TextGenerator_mount ::
  "(GeneratedText list \<Rightarrow> js_string) \<Rightarrow> (js_string \<Rightarrow> js_exn + GeneratedText parsed) \<Rightarrow>
   (js_string \<rightharpoonup> js_string) \<Rightarrow> js_exn + TextGenerator option" where
  "TextGenerator_mount stringify parse storage =
     (case loadTexts_effect parse (TextGenerator_initial storage) of
        Inl exn \<Rightarrow> Inl exn
      | Inr None \<Rightarrow> Inr (Some (saveTexts_effect stringify (TextGenerator_initial storage)))
      | Inr (Some parsed) \<Rightarrow>
          (case TextGenerator_render parsed of
             Inl exn \<Rightarrow> Inl exn
           | Inr rendered \<Rightarrow>
               (case parsed of
                  Parsed_list texts \<Rightarrow>
                    Inr (Some (saveTexts_effect stringify
                      ((saveTexts_effect stringify (TextGenerator_initial storage))\<lparr>tg_texts := texts\<rparr>)))
                | _ \<Rightarrow> Inr None)))"

text \<open>
  \<open>generateText\<close> is a closure of one render: its \<open>prompt\<close> and \<open>type\<close> are the
  constants of that render and are parameters here, while the state setters act on
  the current state \<open>w\<close>. The function runs to its \<open>await\<close>; the result is the body of
  the invocation it waits for, or \<open>None\<close> if it has returned.
\<close>

definition generateText_until_await ::
  "js_string \<Rightarrow> js_string \<Rightarrow> TextGenerator \<Rightarrow> text_body option \<times> TextGenerator" where
  "generateText_until_await prompt type w =
     (if trim prompt = []
      then (None,
            w\<lparr>tg_toasts := tg_toasts w @
               [\<lparr>title = js ''Prompt required'',
                 description = js ''Please enter a description for your text'',
                 variant = Destructive\<rparr>]\<rparr>)
      else (Some \<lparr>body_prompt = prompt, body_type = type\<rparr>,
            w\<lparr>tg_isGenerating := True,
              tg_invoked := tg_invoked w @ [\<lparr>body_prompt = prompt, body_type = type\<rparr>]\<rparr>))"

text \<open>
  The rest of the \<open>try\<close> block, once the gateway has answered. \<open>Inl\<close> is a thrown
  value (\<open>None\<close> for null or undefined). \<open>now_id\<close> and \<open>now_ts\<close> are the two readings of
  \<open>Date.now()\<close>. \<open>setTexts\<close> makes React render again and run the saving effect, which
  reads \<open>texts\<close> and writes \<open>localStorage\<close> only.
\<close>

definition generateText_try ::
  "js_string \<Rightarrow> js_string \<Rightarrow> gateway_reply \<Rightarrow> (GeneratedText list \<Rightarrow> js_string) \<Rightarrow> nat \<Rightarrow> nat \<Rightarrow>
   TextGenerator \<Rightarrow> js_error option + TextGenerator" where
  "generateText_try prompt type reply stringify now_id now_ts w =
     (case reply of
        Rejects thrown \<Rightarrow> Inl thrown
      | Resolves data_text error \<Rightarrow>
          (case error of
             Some e \<Rightarrow> Inl (Some e)
           | None \<Rightarrow>
               (case data_text of
                  None \<Rightarrow> Inr w
                | Some text \<Rightarrow>
                    if text = [] then Inr w
                    else Inr (saveTexts_effect stringify
                           (w\<lparr>tg_texts :=
                                \<lparr>text_id = toString now_id, text_content = text, text_prompt = prompt,
                                  text_type = type, text_timestamp = now_ts\<rparr> # tg_texts w,
                              tg_toasts := tg_toasts w @
                                [\<lparr>title = js ''Text generated!'',
                                  description = js ''Your AI-generated text is ready'',
                                  variant = Default\<rparr>],
                              tg_prompt := []\<rparr>)))))"

text \<open>\<^verbatim>\<open>error.message || 'Failed to generate text. Please try again.'\<close>: an absent or empty message gives the fallback.\<close>

definition message_or :: "js_error \<Rightarrow> js_string \<Rightarrow> js_string" where
  "message_or error fallback =
     (case message error of None \<Rightarrow> fallback | Some m \<Rightarrow> if m = [] then fallback else m)"

text \<open>The \<open>catch\<close> block. Reading \<open>error.message\<close> of null or undefined throws a \<open>TypeError\<close>.\<close>

definition generateText_catch :: "js_error option \<Rightarrow> TextGenerator \<Rightarrow> js_exn + TextGenerator" where
  "generateText_catch thrown w =
     (case thrown of
        None \<Rightarrow> Inl TypeError
      | Some error \<Rightarrow>
          Inr (w\<lparr>tg_toasts := tg_toasts w @
                 [\<lparr>title = js ''Generation failed'',
                   description = message_or error (js ''Failed to generate text. Please try again.''),
                   variant = Destructive\<rparr>]\<rparr>))"

text \<open>The \<open>finally\<close> block: \<^verbatim>\<open>setIsGenerating(false)\<close>.\<close>

definition generateText_finally :: "TextGenerator \<Rightarrow> TextGenerator" where
  "generateText_finally w = w\<lparr>tg_isGenerating := False\<rparr>"

text \<open>\<open>generateText\<close> from its \<open>await\<close> to its end: \<open>try\<close>, \<open>catch\<close>, \<open>finally\<close>.\<close>

definition generateText_after_await ::
  "js_string \<Rightarrow> js_string \<Rightarrow> gateway_reply \<Rightarrow> (GeneratedText list \<Rightarrow> js_string) \<Rightarrow> nat \<Rightarrow> nat \<Rightarrow>
   TextGenerator \<Rightarrow> completion \<times> TextGenerator" where
  "generateText_after_await prompt type reply stringify now_id now_ts w =
     (case generateText_try prompt type reply stringify now_id now_ts w of
        Inr w1 \<Rightarrow> (Fulfilled, generateText_finally w1)
      | Inl thrown \<Rightarrow>
          (case generateText_catch thrown w of
             Inr w2 \<Rightarrow> (Fulfilled, generateText_finally w2)
           | Inl exn \<Rightarrow> (Rejected exn, generateText_finally w)))"

text \<open>
  One whole call of \<open>generateText\<close> with nothing else happening while it waits:
  \<open>invoke\<close> is the gateway, giving the reply to each body.
\<close>

definition generateText ::
  "js_string \<Rightarrow> js_string \<Rightarrow> (text_body \<Rightarrow> gateway_reply) \<Rightarrow> (GeneratedText list \<Rightarrow> js_string) \<Rightarrow>
   nat \<Rightarrow> nat \<Rightarrow> TextGenerator \<Rightarrow> completion \<times> TextGenerator" where
  "generateText prompt type invoke stringify now_id now_ts w =
     (case generateText_until_await prompt type w of
        (None, w1) \<Rightarrow> (Fulfilled, w1)
      | (Some body, w1) \<Rightarrow>
          generateText_after_await prompt type (invoke body) stringify now_id now_ts w1)"

text \<open>
  \<^verbatim>\<open>const regenerateText = async (text) => { setPrompt(text.prompt); setType(text.type); await generateText(); }\<close>
  The setters change the state of the next render; \<open>generateText\<close> is the closure of
  the render that made \<open>regenerateText\<close>, with that render's \<open>prompt\<close> and \<open>type\<close>.
\<close>

definition regenerateText_until_await ::
  "js_string \<Rightarrow> js_string \<Rightarrow> GeneratedText \<Rightarrow> TextGenerator \<Rightarrow> text_body option \<times> TextGenerator" where
  "regenerateText_until_await prompt type text w =
     generateText_until_await prompt type (w\<lparr>tg_prompt := text_prompt text, tg_type := text_type text\<rparr>)"

definition regenerateText ::
  "js_string \<Rightarrow> js_string \<Rightarrow> GeneratedText \<Rightarrow> (text_body \<Rightarrow> gateway_reply) \<Rightarrow>
   (GeneratedText list \<Rightarrow> js_string) \<Rightarrow> nat \<Rightarrow> nat \<Rightarrow> TextGenerator \<Rightarrow> completion \<times> TextGenerator" where
  "regenerateText prompt type text invoke stringify now_id now_ts w =
     generateText prompt type invoke stringify now_id now_ts
       (w\<lparr>tg_prompt := text_prompt text, tg_type := text_type text\<rparr>)"

text \<open>\<^verbatim>\<open>const deleteText = (id) => { setTexts(prev => prev.filter(t => t.id !== id)); toast(...) }\<close>, then the saving effect.\<close>

definition deleteText :: "js_string \<Rightarrow> (GeneratedText list \<Rightarrow> js_string) \<Rightarrow> TextGenerator \<Rightarrow> TextGenerator" where
  "deleteText id' stringify w =
     saveTexts_effect stringify
       (w\<lparr>tg_texts := filter (\<lambda>t. text_id t \<noteq> id') (tg_texts w),
          tg_toasts := tg_toasts w @
            [\<lparr>title = js ''Deleted'', description = js ''Text has been removed'', variant = Default\<rparr>]\<rparr>)"

text \<open>
  The handlers of the rendered elements, for the latest render of state \<open>w\<close>. The
  text area calls \<open>generateText\<close> on Ctrl+Enter; the Generate button is disabled by
  \<^verbatim>\<open>disabled={isGenerating || !prompt.trim()}\<close> and each Regenerate button by
  \<^verbatim>\<open>disabled={isGenerating}\<close>; a disabled button does not call its handler.
\<close>

definition textarea_onKeyDown :: "js_string \<Rightarrow> bool \<Rightarrow> TextGenerator \<Rightarrow> text_body option \<times> TextGenerator" where
  "textarea_onKeyDown key ctrlKey w =
     (if key = js ''Enter'' \<and> ctrlKey
      then generateText_until_await (tg_prompt w) (tg_type w) w
      else (None, w))"

definition generateButton_disabled :: "TextGenerator \<Rightarrow> bool" where
  "generateButton_disabled w \<longleftrightarrow> tg_isGenerating w \<or> trim (tg_prompt w) = []"

definition generateButton_onClick :: "TextGenerator \<Rightarrow> text_body option \<times> TextGenerator" where
  "generateButton_onClick w =
     (if generateButton_disabled w then (None, w)
      else generateText_until_await (tg_prompt w) (tg_type w) w)"

definition regenerateButton_disabled :: "TextGenerator \<Rightarrow> bool" where
  "regenerateButton_disabled w \<longleftrightarrow> tg_isGenerating w"

definition regenerateButton_onClick :: "GeneratedText \<Rightarrow> TextGenerator \<Rightarrow> text_body option \<times> TextGenerator" where
  "regenerateButton_onClick text w =
     (if regenerateButton_disabled w then (None, w)
      else regenerateText_until_await (tg_prompt w) (tg_type w) text w)"

text \<open>
  The Clear All button:
  \<^verbatim>\<open>if (confirm('Clear all generated texts?')) { setTexts([]); localStorage.removeItem('ai-studio-texts'); toast(...) }\<close>
  \<open>confirmed\<close> is the user's answer. \<open>setTexts\<close> is followed by the saving effect.
\<close>

definition clearAll_onClick :: "bool \<Rightarrow> (GeneratedText list \<Rightarrow> js_string) \<Rightarrow> TextGenerator \<Rightarrow> TextGenerator" where
  "clearAll_onClick confirmed stringify w =
     (if confirmed
      then saveTexts_effect stringify
             (w\<lparr>tg_texts := [],
                tg_localStorage := (tg_localStorage w)(texts_key := None),
                tg_toasts := tg_toasts w @
                  [\<lparr>title = js ''Cleared'', description = js ''All texts have been cleared'',
                    variant = Default\<rparr>]\<rparr>)
      else w)"

section \<open>The image generator\<close>

text \<open>\<^verbatim>\<open>interface GeneratedImage { id: string; url: string; prompt: string; timestamp: number; }\<close>\<close>

record GeneratedImage =
  image_id :: js_string
  image_url :: js_string
  image_prompt :: js_string
  image_timestamp :: nat

text \<open>The body of a \<open>generate-image\<close> invocation: \<^verbatim>\<open>{ prompt }\<close>.\<close>

record image_body =
  ibody_prompt :: js_string

text \<open>
  One mounted \<open>ImageGenerator\<close>. \<open>hoveredImage\<close> and \<open>selectedImage\<close> only steer the
  display and are left out; no function below reads or writes them.
\<close>

record ImageGenerator =
  ig_prompt :: js_string
  ig_isGenerating :: bool
  ig_images :: "GeneratedImage list"
  ig_imageLoading :: "js_string set"
  ig_imageErrors :: "js_string set"
  ig_toasts :: "toast list"
  ig_invoked :: "image_body list"
  ig_localStorage :: "js_string \<rightharpoonup> js_string"

definition images_key :: js_string where
  "images_key = js ''ai-studio-images''"

text \<open>\<^verbatim>\<open>useEffect(() => { if (images.length > 0) localStorage.setItem('ai-studio-images', JSON.stringify(images)); }, [images])\<close>\<close>

definition saveImages_effect :: "(GeneratedImage list \<Rightarrow> js_string) \<Rightarrow> ImageGenerator \<Rightarrow> ImageGenerator" where
  "saveImages_effect stringify w =
     (if length (ig_images w) > 0
      then w\<lparr>ig_localStorage := (ig_localStorage w)(images_key \<mapsto> stringify (ig_images w))\<rparr>
      else w)"

definition loadImages_effect ::
  "(js_string \<Rightarrow> js_exn + GeneratedImage parsed) \<Rightarrow> ImageGenerator \<Rightarrow>
   js_exn + GeneratedImage parsed option" where
  "loadImages_effect parse w =
     (case ig_localStorage w images_key of
        None \<Rightarrow> Inr None
      | Some savedImages \<Rightarrow>
          if savedImages = [] then Inr None
          else (case parse savedImages of
                  Inl error \<Rightarrow> Inr None
                | Inr parsed \<Rightarrow> Inr (Some parsed)))"

text \<open>
  The callback of \<open>images.map\<close> in the render, as far as exceptions go: it reads
  \<open>image.id\<close> for the key, which throws on null; the other reads (\<open>image.id\<close>,
  \<open>image.url\<close>, \<open>image.prompt\<close>) then read properties of the same value and call
  nothing on them.
\<close>

definition images_map_callback :: "json \<Rightarrow> js_exn + unit" where
  "images_map_callback img =
     (case property (js ''id'') img of
        Inl exn \<Rightarrow> Inl exn
      | Inr key \<Rightarrow> Inr ())"

text \<open>
  What the render does with the collection,
  \<^verbatim>\<open>{images.length > 0 && (... images.map((image) => ...) ...)}\<close> and \<^verbatim>\<open>{images.length === 0 && (...)}\<close>,
  as far as exceptions go.
\<close>

definition ImageGenerator_render :: "GeneratedImage parsed \<Rightarrow> js_exn + unit" where
  "ImageGenerator_render images =
     (case images of
        Parsed_list artifacts \<Rightarrow> Inr ()
      | Parsed_array elements \<Rightarrow>
          if length elements > 0 then map_elements images_map_callback elements else Inr ()
      | Parsed_null \<Rightarrow> Inl TypeError
      | Parsed_scalar \<Rightarrow> Inr ()
      | Parsed_string s \<Rightarrow> if length s > 0 then Inl TypeError else Inr ()
      | Parsed_object positive \<Rightarrow> if positive then Inl TypeError else Inr ())"

definition ImageGenerator_initial :: "(js_string \<rightharpoonup> js_string) \<Rightarrow> ImageGenerator" where
  "ImageGenerator_initial storage =
     \<lparr>ig_prompt = [], ig_isGenerating = False, ig_images = [], ig_imageLoading = {},
      ig_imageErrors = {}, ig_toasts = [], ig_invoked = [], ig_localStorage = storage\<rparr>"

definition ImageGenerator_mount ::
  "(GeneratedImage list \<Rightarrow> js_string) \<Rightarrow> (js_string \<Rightarrow> js_exn + GeneratedImage parsed) \<Rightarrow>
   (js_string \<rightharpoonup> js_string) \<Rightarrow> js_exn + ImageGenerator option" where
  "ImageGenerator_mount stringify parse storage =
     (case loadImages_effect parse (ImageGenerator_initial storage) of
        Inl exn \<Rightarrow> Inl exn
      | Inr None \<Rightarrow> Inr (Some (saveImages_effect stringify (ImageGenerator_initial storage)))
      | Inr (Some parsed) \<Rightarrow>
          (case ImageGenerator_render parsed of
             Inl exn \<Rightarrow> Inl exn
           | Inr rendered \<Rightarrow>
               (case parsed of
                  Parsed_list images \<Rightarrow>
                    Inr (Some (saveImages_effect stringify
                      ((saveImages_effect stringify (ImageGenerator_initial storage))\<lparr>ig_images := images\<rparr>)))
                | _ \<Rightarrow> Inr None)))"

text \<open>\<open>generateImage\<close>, split like \<open>generateText\<close>; \<open>prompt\<close> is the constant of the render whose closure runs.\<close>

definition generateImage_until_await :: "js_string \<Rightarrow> ImageGenerator \<Rightarrow> image_body option \<times> ImageGenerator" where
  "generateImage_until_await prompt w =
     (if trim prompt = []
      then (None,
            w\<lparr>ig_toasts := ig_toasts w @
               [\<lparr>title = js ''Prompt required'',
                 description = js ''Please enter a description for your image'',
                 variant = Destructive\<rparr>]\<rparr>)
      else (Some \<lparr>ibody_prompt = prompt\<rparr>,
            w\<lparr>ig_isGenerating := True,
              ig_invoked := ig_invoked w @ [\<lparr>ibody_prompt = prompt\<rparr>]\<rparr>))"

definition generateImage_try ::
  "js_string \<Rightarrow> gateway_reply \<Rightarrow> (GeneratedImage list \<Rightarrow> js_string) \<Rightarrow> nat \<Rightarrow> nat \<Rightarrow>
   ImageGenerator \<Rightarrow> js_error option + ImageGenerator" where
  "generateImage_try prompt reply stringify now_id now_ts w =
     (case reply of
        Rejects thrown \<Rightarrow> Inl thrown
      | Resolves data_imageUrl error \<Rightarrow>
          (case error of
             Some e \<Rightarrow> Inl (Some e)
           | None \<Rightarrow>
               (case data_imageUrl of
                  None \<Rightarrow> Inr w
                | Some imageUrl \<Rightarrow>
                    if imageUrl = [] then Inr w
                    else Inr (saveImages_effect stringify
                           (w\<lparr>ig_images :=
                                \<lparr>image_id = toString now_id, image_url = imageUrl,
                                  image_prompt = prompt, image_timestamp = now_ts\<rparr> # ig_images w,
                              ig_imageLoading := insert (toString now_id) (ig_imageLoading w),
                              ig_toasts := ig_toasts w @
                                [\<lparr>title = js ''Image generated!'',
                                  description = js ''Your AI-generated image is ready'',
                                  variant = Default\<rparr>],
                              ig_prompt := []\<rparr>)))))"

definition generateImage_catch :: "js_error option \<Rightarrow> ImageGenerator \<Rightarrow> js_exn + ImageGenerator" where
  "generateImage_catch thrown w =
     (case thrown of
        None \<Rightarrow> Inl TypeError
      | Some error \<Rightarrow>
          Inr (w\<lparr>ig_toasts := ig_toasts w @
                 [\<lparr>title = js ''Generation failed'',
                   description = message_or error (js ''Failed to generate image. Please try again.''),
                   variant = Destructive\<rparr>]\<rparr>))"

definition generateImage_finally :: "ImageGenerator \<Rightarrow> ImageGenerator" where
  "generateImage_finally w = w\<lparr>ig_isGenerating := False\<rparr>"

definition generateImage_after_await ::
  "js_string \<Rightarrow> gateway_reply \<Rightarrow> (GeneratedImage list \<Rightarrow> js_string) \<Rightarrow> nat \<Rightarrow> nat \<Rightarrow>
   ImageGenerator \<Rightarrow> completion \<times> ImageGenerator" where
  "generateImage_after_await prompt reply stringify now_id now_ts w =
     (case generateImage_try prompt reply stringify now_id now_ts w of
        Inr w1 \<Rightarrow> (Fulfilled, generateImage_finally w1)
      | Inl thrown \<Rightarrow>
          (case generateImage_catch thrown w of
             Inr w2 \<Rightarrow> (Fulfilled, generateImage_finally w2)
           | Inl exn \<Rightarrow> (Rejected exn, generateImage_finally w)))"

definition generateImage ::
  "js_string \<Rightarrow> (image_body \<Rightarrow> gateway_reply) \<Rightarrow> (GeneratedImage list \<Rightarrow> js_string) \<Rightarrow>
   nat \<Rightarrow> nat \<Rightarrow> ImageGenerator \<Rightarrow> completion \<times> ImageGenerator" where
  "generateImage prompt invoke stringify now_id now_ts w =
     (case generateImage_until_await prompt w of
        (None, w1) \<Rightarrow> (Fulfilled, w1)
      | (Some body, w1) \<Rightarrow> generateImage_after_await prompt (invoke body) stringify now_id now_ts w1)"

text \<open>\<^verbatim>\<open>const regenerateImage = async (image) => { setPrompt(image.prompt); await generateImage(); }\<close>\<close>

definition regenerateImage_until_await ::
  "js_string \<Rightarrow> GeneratedImage \<Rightarrow> ImageGenerator \<Rightarrow> image_body option \<times> ImageGenerator" where
  "regenerateImage_until_await prompt img w =
     generateImage_until_await prompt (w\<lparr>ig_prompt := image_prompt img\<rparr>)"

definition regenerateImage ::
  "js_string \<Rightarrow> GeneratedImage \<Rightarrow> (image_body \<Rightarrow> gateway_reply) \<Rightarrow>
   (GeneratedImage list \<Rightarrow> js_string) \<Rightarrow> nat \<Rightarrow> nat \<Rightarrow> ImageGenerator \<Rightarrow> completion \<times> ImageGenerator" where
  "regenerateImage prompt img invoke stringify now_id now_ts w =
     generateImage prompt invoke stringify now_id now_ts (w\<lparr>ig_prompt := image_prompt img\<rparr>)"

text \<open>The handlers of the rendered elements, as for the text generator.\<close>

definition image_textarea_onKeyDown :: "js_string \<Rightarrow> bool \<Rightarrow> ImageGenerator \<Rightarrow> image_body option \<times> ImageGenerator" where
  "image_textarea_onKeyDown key ctrlKey w =
     (if key = js ''Enter'' \<and> ctrlKey
      then generateImage_until_await (ig_prompt w) w
      else (None, w))"

definition image_generateButton_disabled :: "ImageGenerator \<Rightarrow> bool" where
  "image_generateButton_disabled w \<longleftrightarrow> ig_isGenerating w \<or> trim (ig_prompt w) = []"

definition image_generateButton_onClick :: "ImageGenerator \<Rightarrow> image_body option \<times> ImageGenerator" where
  "image_generateButton_onClick w =
     (if image_generateButton_disabled w then (None, w)
      else generateImage_until_await (ig_prompt w) w)"

definition image_regenerateButton_disabled :: "ImageGenerator \<Rightarrow> bool" where
  "image_regenerateButton_disabled w \<longleftrightarrow> ig_isGenerating w"

definition image_regenerateButton_onClick :: "GeneratedImage \<Rightarrow> ImageGenerator \<Rightarrow> image_body option \<times> ImageGenerator" where
  "image_regenerateButton_onClick img w =
     (if image_regenerateButton_disabled w then (None, w)
      else regenerateImage_until_await (ig_prompt w) img w)"

text \<open>\<^verbatim>\<open>if (confirm('Clear all generated images?')) { setImages([]); localStorage.removeItem('ai-studio-images'); toast(...) }\<close>\<close>

definition image_clearAll_onClick :: "bool \<Rightarrow> (GeneratedImage list \<Rightarrow> js_string) \<Rightarrow> ImageGenerator \<Rightarrow> ImageGenerator" where
  "image_clearAll_onClick confirmed stringify w =
     (if confirmed
      then saveImages_effect stringify
             (w\<lparr>ig_images := [],
                ig_localStorage := (ig_localStorage w)(images_key := None),
                ig_toasts := ig_toasts w @
                  [\<lparr>title = js ''Cleared'', description = js ''All images have been cleared'',
                    variant = Default\<rparr>]\<rparr>)
      else w)"

section \<open>Example states\<close>

text \<open>
  The scenario of the specification: the text generated for the prompt
  \<open>Write a short story\<close> in the creative style, and the state of the component after
  that generation (the prompt is cleared, the store holds the saved collection).
\<close>

definition story :: GeneratedText where
  "story = \<lparr>text_id = js ''1700000000000'', text_content = js ''Once upon a time'',
            text_prompt = js ''Write a short story'', text_type = js ''creative'',
            text_timestamp = 1700000000000\<rparr>"

definition TextGenerator_with_story :: TextGenerator where
  "TextGenerator_with_story =
     \<lparr>tg_prompt = [], tg_type = js ''creative'', tg_isGenerating = False, tg_texts = [story],
      tg_toasts = [], tg_invoked = [], tg_localStorage = [texts_key \<mapsto> js ''[story]'']\<rparr>"

definition cityscape :: GeneratedImage where
  "cityscape = \<lparr>image_id = js ''1700000000000'', image_url = js ''https://x/1.png'',
                image_prompt = js ''A futuristic cyberpunk cityscape at night'',
                image_timestamp = 1700000000000\<rparr>"

definition ImageGenerator_with_cityscape :: ImageGenerator where
  "ImageGenerator_with_cityscape =
     \<lparr>ig_prompt = [], ig_isGenerating = False, ig_images = [cityscape], ig_imageLoading = {},
      ig_imageErrors = {}, ig_toasts = [], ig_invoked = [],
      ig_localStorage = [images_key \<mapsto> js ''[cityscape]'']\<rparr>"

section \<open>Properties of the file name segment\<close>

lemma replace_pattern_map:
  "replace matches_pattern (js ''-'') s = map (\<lambda>c. if matches_pattern c then 0x2D else c) s"
  by (induction s) (simp_all add: replace_def js_def)

lemma replace_pattern_ascii:
  "c \<in> set (replace matches_pattern (js ''-'') s) \<Longrightarrow> c < 0x80"
proof -
  assume "c \<in> set (replace matches_pattern (js ''-'') s)"
  then have "c \<in> (\<lambda>d. if matches_pattern d then 0x2D else d) ` set s"
    by (simp add: replace_pattern_map)
  then obtain d where d: "c = (if matches_pattern d then 0x2D else d)"
    by blast
  show ?thesis
  proof (cases "matches_pattern d")
    case True
    with d show ?thesis by simp
  next
    case False
    then have "isAsciiLower d \<or> isAsciiUpper d \<or> isAsciiDigit d"
      by (simp add: matches_pattern_def)
    moreover have "c = d" using d False by simp
    ultimately show ?thesis
      by (auto simp: isAsciiLower_def isAsciiUpper_def isAsciiDigit_def
          word_le_nat_alt word_less_nat_alt)
  qed
qed

lemma sanitizedPrompt_map:
  "sanitizedPrompt p =
     map (\<lambda>c. if isAsciiAlnum c then (if isAsciiUpper c then c + 0x20 else c) else 0x2D) (take 50 p)"
  by (simp add: sanitizedPrompt_def toLowerCase_def replace_pattern_map slice_def
      matches_pattern_def isAsciiAlnum_def isAsciiUpper_def)

lemma length_sanitizedPrompt: "length (sanitizedPrompt p) = min 50 (length p)"
  by (simp add: sanitizedPrompt_map min.commute)

lemma sanitizedPrompt_example:
  "sanitizedPrompt (js ''A: B? C!'') = js ''a--b--c-''"
  by (simp add: sanitizedPrompt_map js_def isAsciiAlnum_def isAsciiLower_def isAsciiUpper_def
      isAsciiDigit_def)

text \<open>
  C7 (as the code has it). The segment is as long as the first 50 code units of the
  prompt; at each position an ASCII letter or digit is kept, in lower case, and any
  other code unit becomes one \<open>-\<close>. Separators are neither merged nor stripped at the
  ends, so the prompt \<open>A: B? C!\<close> gives \<open>a--b--c-\<close>.
\<close>

theorem sanitizedPrompt_positions:
  "length (sanitizedPrompt p) = min 50 (length p) \<and>
   (\<forall>i < min 50 (length p).
      sanitizedPrompt p ! i =
        (if isAsciiAlnum (p ! i) then (if isAsciiUpper (p ! i) then p ! i + 0x20 else p ! i)
         else 0x2D)) \<and>
   sanitizedPrompt (js ''A: B? C!'') = js ''a--b--c-''"
  by (simp add: length_sanitizedPrompt sanitizedPrompt_example)
     (simp add: sanitizedPrompt_map)

theorem sanitizedPrompt_positions_witness:
  "(1::nat) < min 50 (length (js ''A: B? C!'')) \<and>
   sanitizedPrompt (js ''A: B? C!'') ! 1 = 0x2D \<and>
   length (sanitizedPrompt (js ''A: B? C!'')) = 8"
  using sanitizedPrompt_positions [of "js ''A: B? C!''"]
  by (simp add: js_def isAsciiAlnum_def isAsciiLower_def isAsciiUpper_def isAsciiDigit_def)

text \<open>C7 (as stated) fails: the segment of \<open>A: B? C!\<close> is not \<open>a-b-c\<close>.\<close>

theorem sanitizedPrompt_example_counterexample:
  "sanitizedPrompt (js ''A: B? C!'') \<noteq> js ''a-b-c''"
  by (simp add: sanitizedPrompt_map js_def isAsciiAlnum_def isAsciiLower_def isAsciiUpper_def
      isAsciiDigit_def)

section \<open>Properties of \<open>generateText\<close> and \<open>generateImage\<close>\<close>

text \<open>A prompt trims to the empty string exactly when it is empty or holds white space only.\<close>

lemma trim_empty_iff: "trim s = [] \<longleftrightarrow> (\<forall>c \<in> set s. isWhiteSpace c)"
proof
  assume "trim s = []"
  then have "dropWhile isWhiteSpace (rev (dropWhile isWhiteSpace s)) = []"
    by (simp add: trim_def)
  then have all: "\<forall>c \<in> set (dropWhile isWhiteSpace s). isWhiteSpace c"
    by (simp add: dropWhile_eq_Nil_conv)
  have "dropWhile isWhiteSpace s = []"
  proof (rule ccontr)
    assume ne: "dropWhile isWhiteSpace s \<noteq> []"
    then have "\<not> isWhiteSpace (hd (dropWhile isWhiteSpace s))"
      by (rule hd_dropWhile)
    moreover have "hd (dropWhile isWhiteSpace s) \<in> set (dropWhile isWhiteSpace s)"
      using ne by simp
    ultimately show False using all by blast
  qed
  then show "\<forall>c \<in> set s. isWhiteSpace c"
    by (simp add: dropWhile_eq_Nil_conv)
next
  assume "\<forall>c \<in> set s. isWhiteSpace c"
  then have d: "dropWhile isWhiteSpace s = []"
    by (simp add: dropWhile_eq_Nil_conv)
  show "trim s = []"
    unfolding trim_def d by simp
qed

lemma generateText_blank:
  "trim prompt = [] \<Longrightarrow>
   generateText prompt type invoke stringify now_id now_ts w =
     (Fulfilled, w\<lparr>tg_toasts := tg_toasts w @
        [\<lparr>title = js ''Prompt required'',
          description = js ''Please enter a description for your text'',
          variant = Destructive\<rparr>]\<rparr>)"
  by (simp add: generateText_def generateText_until_await_def)

lemma generateText_invoked:
  "trim prompt \<noteq> [] \<Longrightarrow>
   tg_invoked (snd (generateText prompt type invoke stringify now_id now_ts w)) =
     tg_invoked w @ [\<lparr>body_prompt = prompt, body_type = type\<rparr>]"
  by (simp add: generateText_def generateText_until_await_def generateText_after_await_def
      generateText_try_def generateText_catch_def generateText_finally_def saveTexts_effect_def
      split: gateway_reply.splits option.splits sum.splits)

lemma generateText_success:
  assumes "trim prompt \<noteq> []"
    and "invoke \<lparr>body_prompt = prompt, body_type = type\<rparr> = Resolves (Some text) None"
    and "text \<noteq> []"
  shows "generateText prompt type invoke stringify now_id now_ts w =
     (Fulfilled,
      w\<lparr>tg_isGenerating := False,
        tg_invoked := tg_invoked w @ [\<lparr>body_prompt = prompt, body_type = type\<rparr>],
        tg_texts := \<lparr>text_id = toString now_id, text_content = text, text_prompt = prompt,
                     text_type = type, text_timestamp = now_ts\<rparr> # tg_texts w,
        tg_toasts := tg_toasts w @
           [\<lparr>title = js ''Text generated!'', description = js ''Your AI-generated text is ready'',
             variant = Default\<rparr>],
        tg_prompt := [],
        tg_localStorage := (tg_localStorage w)(texts_key \<mapsto> stringify
           (\<lparr>text_id = toString now_id, text_content = text, text_prompt = prompt,
                     text_type = type, text_timestamp = now_ts\<rparr> # tg_texts w))\<rparr>)"
  using assms
  by (simp add: generateText_def generateText_until_await_def generateText_after_await_def
      generateText_try_def generateText_finally_def saveTexts_effect_def)

lemma generateText_after_await_flag:
  "\<not> tg_isGenerating (snd (generateText_after_await prompt type reply stringify now_id now_ts w))"
  by (simp add: generateText_after_await_def
      generateText_try_def generateText_catch_def generateText_finally_def saveTexts_effect_def
      split: gateway_reply.splits option.splits sum.splits)

lemma generateImage_blank:
  "trim prompt = [] \<Longrightarrow>
   generateImage prompt invoke stringify now_id now_ts w =
     (Fulfilled, w\<lparr>ig_toasts := ig_toasts w @
        [\<lparr>title = js ''Prompt required'',
          description = js ''Please enter a description for your image'',
          variant = Destructive\<rparr>]\<rparr>)"
  by (simp add: generateImage_def generateImage_until_await_def)

lemma generateImage_invoked:
  "trim prompt \<noteq> [] \<Longrightarrow>
   ig_invoked (snd (generateImage prompt invoke stringify now_id now_ts w)) =
     ig_invoked w @ [\<lparr>ibody_prompt = prompt\<rparr>]"
  by (simp add: generateImage_def generateImage_until_await_def generateImage_after_await_def
      generateImage_try_def generateImage_catch_def generateImage_finally_def saveImages_effect_def
      split: gateway_reply.splits option.splits sum.splits)

lemma generateImage_success:
  assumes "trim prompt \<noteq> []"
    and "invoke \<lparr>ibody_prompt = prompt\<rparr> = Resolves (Some imageUrl) None"
    and "imageUrl \<noteq> []"
  shows "generateImage prompt invoke stringify now_id now_ts w =
     (Fulfilled,
      w\<lparr>ig_isGenerating := False,
        ig_invoked := ig_invoked w @ [\<lparr>ibody_prompt = prompt\<rparr>],
        ig_images := \<lparr>image_id = toString now_id, image_url = imageUrl, image_prompt = prompt,
                      image_timestamp = now_ts\<rparr> # ig_images w,
        ig_imageLoading := insert (toString now_id) (ig_imageLoading w),
        ig_toasts := ig_toasts w @
           [\<lparr>title = js ''Image generated!'', description = js ''Your AI-generated image is ready'',
             variant = Default\<rparr>],
        ig_prompt := [],
        ig_localStorage := (ig_localStorage w)(images_key \<mapsto> stringify
           (\<lparr>image_id = toString now_id, image_url = imageUrl, image_prompt = prompt,
                      image_timestamp = now_ts\<rparr> # ig_images w))\<rparr>)"
  using assms
  by (simp add: generateImage_def generateImage_until_await_def generateImage_after_await_def
      generateImage_try_def generateImage_finally_def saveImages_effect_def)

lemma generateImage_after_await_flag:
  "\<not> ig_isGenerating (snd (generateImage_after_await prompt reply stringify now_id now_ts w))"
  by (simp add: generateImage_after_await_def
      generateImage_try_def generateImage_catch_def generateImage_finally_def saveImages_effect_def
      split: gateway_reply.splits option.splits sum.splits)

lemma js_eq_Nil [simp]: "js s = [] \<longleftrightarrow> s = []"
  by (simp add: js_def)

lemma trim_js_hi: "trim (js ''hi'') \<noteq> []"
  by (simp add: trim_def js_def isWhiteSpace_def)

text \<open>
  C1. A call of \<open>generateText\<close> (of \<open>generateImage\<close>) whose prompt is not blank and
  whose gateway reply has no error and a non-empty payload puts a new artifact in
  front of the collection: the artifact carries the submitted prompt, the payload
  and, for a text, the submitted type; it is at index 0; the collection is one longer
  and every earlier artifact is unchanged, one place further back; the prompt state
  is the empty string; and the saving effect has stored the new collection.
\<close>

theorem generate_success_prepends:
  "(trim prompt \<noteq> [] \<longrightarrow>
    invoke \<lparr>body_prompt = prompt, body_type = type\<rparr> = Resolves (Some content) None \<longrightarrow> content \<noteq> [] \<longrightarrow>
    generateText prompt type invoke stringify now_id now_ts w = (c, w') \<longrightarrow>
      (\<exists>newText. tg_texts w' = newText # tg_texts w \<and> text_prompt newText = prompt \<and>
         text_content newText = content \<and> text_type newText = type) \<and>
      text_prompt (tg_texts w' ! 0) = prompt \<and>
      length (tg_texts w') = length (tg_texts w) + 1 \<and>
      (\<forall>i < length (tg_texts w). tg_texts w' ! (i + 1) = tg_texts w ! i) \<and>
      tg_prompt w' = [] \<and>
      tg_localStorage w' = (tg_localStorage w)(texts_key \<mapsto> stringify (tg_texts w'))) \<and>
   (trim iprompt \<noteq> [] \<longrightarrow>
    iinvoke \<lparr>ibody_prompt = iprompt\<rparr> = Resolves (Some imageUrl) None \<longrightarrow> imageUrl \<noteq> [] \<longrightarrow>
    generateImage iprompt iinvoke istringify inow_id inow_ts v = (d, v') \<longrightarrow>
      (\<exists>newImage. ig_images v' = newImage # ig_images v \<and> image_prompt newImage = iprompt \<and>
         image_url newImage = imageUrl) \<and>
      image_prompt (ig_images v' ! 0) = iprompt \<and>
      length (ig_images v') = length (ig_images v) + 1 \<and>
      (\<forall>i < length (ig_images v). ig_images v' ! (i + 1) = ig_images v ! i) \<and>
      ig_prompt v' = [] \<and>
      ig_localStorage v' = (ig_localStorage v)(images_key \<mapsto> istringify (ig_images v')))"
proof (intro conjI impI)
  assume a: "trim prompt \<noteq> []"
      "invoke \<lparr>body_prompt = prompt, body_type = type\<rparr> = Resolves (Some content) None"
      "content \<noteq> []"
    and run: "generateText prompt type invoke stringify now_id now_ts w = (c, w')"
  from generateText_success [where invoke = invoke and stringify = stringify, OF a, where now_id = now_id and now_ts = now_ts and w = w] run
  have w': "w' = w\<lparr>tg_isGenerating := False,
        tg_invoked := tg_invoked w @ [\<lparr>body_prompt = prompt, body_type = type\<rparr>],
        tg_texts := \<lparr>text_id = toString now_id, text_content = content, text_prompt = prompt,
                     text_type = type, text_timestamp = now_ts\<rparr> # tg_texts w,
        tg_toasts := tg_toasts w @
           [\<lparr>title = js ''Text generated!'', description = js ''Your AI-generated text is ready'',
             variant = Default\<rparr>],
        tg_prompt := [],
        tg_localStorage := (tg_localStorage w)(texts_key \<mapsto> stringify
           (\<lparr>text_id = toString now_id, text_content = content, text_prompt = prompt,
                     text_type = type, text_timestamp = now_ts\<rparr> # tg_texts w))\<rparr>"
    by simp
  show "\<exists>newText. tg_texts w' = newText # tg_texts w \<and> text_prompt newText = prompt \<and>
         text_content newText = content \<and> text_type newText = type"
    by (simp add: w')
  show "text_prompt (tg_texts w' ! 0) = prompt" by (simp add: w')
  show "length (tg_texts w') = length (tg_texts w) + 1" by (simp add: w')
  show "\<forall>i < length (tg_texts w). tg_texts w' ! (i + 1) = tg_texts w ! i" by (simp add: w')
  show "tg_prompt w' = []" by (simp add: w')
  show "tg_localStorage w' = (tg_localStorage w)(texts_key \<mapsto> stringify (tg_texts w'))"
    by (simp add: w')
next
  assume a: "trim iprompt \<noteq> []"
      "iinvoke \<lparr>ibody_prompt = iprompt\<rparr> = Resolves (Some imageUrl) None"
      "imageUrl \<noteq> []"
    and run: "generateImage iprompt iinvoke istringify inow_id inow_ts v = (d, v')"
  from generateImage_success [where invoke = iinvoke and stringify = istringify, OF a, where now_id = inow_id and now_ts = inow_ts and w = v] run
  have v': "v' = v\<lparr>ig_isGenerating := False,
        ig_invoked := ig_invoked v @ [\<lparr>ibody_prompt = iprompt\<rparr>],
        ig_images := \<lparr>image_id = toString inow_id, image_url = imageUrl, image_prompt = iprompt,
                      image_timestamp = inow_ts\<rparr> # ig_images v,
        ig_imageLoading := insert (toString inow_id) (ig_imageLoading v),
        ig_toasts := ig_toasts v @
           [\<lparr>title = js ''Image generated!'', description = js ''Your AI-generated image is ready'',
             variant = Default\<rparr>],
        ig_prompt := [],
        ig_localStorage := (ig_localStorage v)(images_key \<mapsto> istringify
           (\<lparr>image_id = toString inow_id, image_url = imageUrl, image_prompt = iprompt,
                      image_timestamp = inow_ts\<rparr> # ig_images v))\<rparr>"
    by simp
  show "\<exists>newImage. ig_images v' = newImage # ig_images v \<and> image_prompt newImage = iprompt \<and>
         image_url newImage = imageUrl"
    by (simp add: v')
  show "image_prompt (ig_images v' ! 0) = iprompt" by (simp add: v')
  show "length (ig_images v') = length (ig_images v) + 1" by (simp add: v')
  show "\<forall>i < length (ig_images v). ig_images v' ! (i + 1) = ig_images v ! i" by (simp add: v')
  show "ig_prompt v' = []" by (simp add: v')
  show "ig_localStorage v' = (ig_localStorage v)(images_key \<mapsto> istringify (ig_images v'))"
    by (simp add: v')
qed

theorem generate_success_prepends_witness:
  "trim (js ''hi'') \<noteq> [] \<and>
   text_prompt (tg_texts (snd (generateText (js ''hi'') (js ''casual'')
       (\<lambda>body. Resolves (Some (js ''yo'')) None) (\<lambda>texts. js ''[]'') 5 6
       (TextGenerator_initial Map.empty))) ! 0) = js ''hi'' \<and>
   length (tg_texts (snd (generateText (js ''hi'') (js ''casual'')
       (\<lambda>body. Resolves (Some (js ''yo'')) None) (\<lambda>texts. js ''[]'') 5 6
       (TextGenerator_initial Map.empty)))) = 1 \<and>
   image_prompt (ig_images (snd (generateImage (js ''hi'')
       (\<lambda>body. Resolves (Some (js ''https://x/1.png'')) None) (\<lambda>images. js ''[]'') 5 6
       (ImageGenerator_initial Map.empty))) ! 0) = js ''hi'' \<and>
   length (ig_images (snd (generateImage (js ''hi'')
       (\<lambda>body. Resolves (Some (js ''https://x/1.png'')) None) (\<lambda>images. js ''[]'') 5 6
       (ImageGenerator_initial Map.empty)))) = 1"
  using generate_success_prepends
    [where prompt = "js ''hi''" and type = "js ''casual''"
       and invoke = "\<lambda>body. Resolves (Some (js ''yo'')) None" and content = "js ''yo''"
       and stringify = "\<lambda>texts. js ''[]''" and now_id = 5 and now_ts = 6
       and w = "TextGenerator_initial Map.empty"
       and c = "fst (generateText (js ''hi'') (js ''casual'')
           (\<lambda>body. Resolves (Some (js ''yo'')) None) (\<lambda>texts. js ''[]'') 5 6
           (TextGenerator_initial Map.empty))"
       and w' = "snd (generateText (js ''hi'') (js ''casual'')
           (\<lambda>body. Resolves (Some (js ''yo'')) None) (\<lambda>texts. js ''[]'') 5 6
           (TextGenerator_initial Map.empty))"
       and iprompt = "js ''hi''"
       and iinvoke = "\<lambda>body. Resolves (Some (js ''https://x/1.png'')) None"
       and imageUrl = "js ''https://x/1.png''"
       and istringify = "\<lambda>images. js ''[]''" and inow_id = 5 and inow_ts = 6
       and v = "ImageGenerator_initial Map.empty"
       and d = "fst (generateImage (js ''hi'')
           (\<lambda>body. Resolves (Some (js ''https://x/1.png'')) None) (\<lambda>images. js ''[]'') 5 6
           (ImageGenerator_initial Map.empty))"
       and v' = "snd (generateImage (js ''hi'')
           (\<lambda>body. Resolves (Some (js ''https://x/1.png'')) None) (\<lambda>images. js ''[]'') 5 6
           (ImageGenerator_initial Map.empty))"]
  by (simp add: trim_js_hi TextGenerator_initial_def ImageGenerator_initial_def)

text \<open>
  C2. When the prompt is empty or holds white space only, a call of \<open>generateText\<close>
  (of \<open>generateImage\<close>) issues no gateway invocation, leaves the collection as it
  was and changes the state only by the destructive toast \<open>Prompt required\<close>. For
  every other prompt the call issues exactly one invocation, with that prompt (and
  type) as its body, whatever the gateway replies.
\<close>

theorem generate_prompt_validation:
  "(generateText prompt type invoke stringify now_id now_ts w = (c, w') \<longrightarrow>
      ((\<forall>u \<in> set prompt. isWhiteSpace u) \<longrightarrow>
         tg_invoked w' = tg_invoked w \<and> tg_texts w' = tg_texts w \<and>
         w' = w\<lparr>tg_toasts := tg_toasts w @
                 [\<lparr>title = js ''Prompt required'',
                   description = js ''Please enter a description for your text'',
                   variant = Destructive\<rparr>]\<rparr>) \<and>
      (\<not> (\<forall>u \<in> set prompt. isWhiteSpace u) \<longrightarrow>
         tg_invoked w' = tg_invoked w @ [\<lparr>body_prompt = prompt, body_type = type\<rparr>])) \<and>
   (generateImage iprompt iinvoke istringify inow_id inow_ts v = (d, v') \<longrightarrow>
      ((\<forall>u \<in> set iprompt. isWhiteSpace u) \<longrightarrow>
         ig_invoked v' = ig_invoked v \<and> ig_images v' = ig_images v \<and>
         v' = v\<lparr>ig_toasts := ig_toasts v @
                 [\<lparr>title = js ''Prompt required'',
                   description = js ''Please enter a description for your image'',
                   variant = Destructive\<rparr>]\<rparr>) \<and>
      (\<not> (\<forall>u \<in> set iprompt. isWhiteSpace u) \<longrightarrow>
         ig_invoked v' = ig_invoked v @ [\<lparr>ibody_prompt = iprompt\<rparr>]))"
proof (intro conjI impI)
  assume run: "generateText prompt type invoke stringify now_id now_ts w = (c, w')"
  {
    assume "\<forall>u \<in> set prompt. isWhiteSpace u"
    then have "trim prompt = []" by (simp add: trim_empty_iff)
    from generateText_blank [OF this, where invoke = invoke and stringify = stringify
        and now_id = now_id and now_ts = now_ts and w = w and type = type] run
    show w': "w' = w\<lparr>tg_toasts := tg_toasts w @
                 [\<lparr>title = js ''Prompt required'',
                   description = js ''Please enter a description for your text'',
                   variant = Destructive\<rparr>]\<rparr>"
      by simp
    show "tg_invoked w' = tg_invoked w" by (simp add: w')
    show "tg_texts w' = tg_texts w" by (simp add: w')
  }
  {
    assume "\<not> (\<forall>u \<in> set prompt. isWhiteSpace u)"
    then have "trim prompt \<noteq> []" by (simp add: trim_empty_iff)
    from generateText_invoked [OF this, where invoke = invoke and stringify = stringify
        and now_id = now_id and now_ts = now_ts and w = w and type = type] run
    show "tg_invoked w' = tg_invoked w @ [\<lparr>body_prompt = prompt, body_type = type\<rparr>]"
      by simp
  }
next
  assume run: "generateImage iprompt iinvoke istringify inow_id inow_ts v = (d, v')"
  {
    assume "\<forall>u \<in> set iprompt. isWhiteSpace u"
    then have "trim iprompt = []" by (simp add: trim_empty_iff)
    from generateImage_blank [OF this, where invoke = iinvoke and stringify = istringify
        and now_id = inow_id and now_ts = inow_ts and w = v] run
    show v': "v' = v\<lparr>ig_toasts := ig_toasts v @
                 [\<lparr>title = js ''Prompt required'',
                   description = js ''Please enter a description for your image'',
                   variant = Destructive\<rparr>]\<rparr>"
      by simp
    show "ig_invoked v' = ig_invoked v" by (simp add: v')
    show "ig_images v' = ig_images v" by (simp add: v')
  }
  {
    assume "\<not> (\<forall>u \<in> set iprompt. isWhiteSpace u)"
    then have "trim iprompt \<noteq> []" by (simp add: trim_empty_iff)
    from generateImage_invoked [OF this, where invoke = iinvoke and stringify = istringify
        and now_id = inow_id and now_ts = inow_ts and w = v] run
    show "ig_invoked v' = ig_invoked v @ [\<lparr>ibody_prompt = iprompt\<rparr>]"
      by simp
  }
qed

lemma blank_js: "\<forall>u \<in> set (js ''  ''). isWhiteSpace u"
  by (simp add: js_def isWhiteSpace_def)

lemma not_blank_js_hi: "\<not> (\<forall>u \<in> set (js ''hi''). isWhiteSpace u)"
  by (simp add: js_def isWhiteSpace_def)

theorem generate_prompt_validation_witness:
  "trim (js ''  '') = [] \<and> trim (js ''hi'') \<noteq> [] \<and>
   tg_invoked (snd (generateText (js ''  '') (js ''casual'')
       (\<lambda>body. Resolves (Some (js ''yo'')) None) (\<lambda>texts. js ''[]'') 5 6
       (TextGenerator_initial Map.empty))) = [] \<and>
   tg_invoked (snd (generateText (js ''hi'') (js ''casual'')
       (\<lambda>body. Resolves (Some (js ''yo'')) None) (\<lambda>texts. js ''[]'') 5 6
       (TextGenerator_initial Map.empty))) = [\<lparr>body_prompt = js ''hi'', body_type = js ''casual''\<rparr>] \<and>
   ig_invoked (snd (generateImage (js ''  '')
       (\<lambda>body. Resolves (Some (js ''https://x/1.png'')) None) (\<lambda>images. js ''[]'') 5 6
       (ImageGenerator_initial Map.empty))) = [] \<and>
   ig_invoked (snd (generateImage (js ''hi'')
       (\<lambda>body. Resolves (Some (js ''https://x/1.png'')) None) (\<lambda>images. js ''[]'') 5 6
       (ImageGenerator_initial Map.empty))) = [\<lparr>ibody_prompt = js ''hi''\<rparr>]"
  using generate_prompt_validation
    [where prompt = "js ''  ''" and type = "js ''casual''"
       and invoke = "\<lambda>body. Resolves (Some (js ''yo'')) None"
       and stringify = "\<lambda>texts. js ''[]''" and now_id = 5 and now_ts = 6
       and w = "TextGenerator_initial Map.empty"
       and c = "fst (generateText (js ''  '') (js ''casual'')
           (\<lambda>body. Resolves (Some (js ''yo'')) None) (\<lambda>texts. js ''[]'') 5 6
           (TextGenerator_initial Map.empty))"
       and w' = "snd (generateText (js ''  '') (js ''casual'')
           (\<lambda>body. Resolves (Some (js ''yo'')) None) (\<lambda>texts. js ''[]'') 5 6
           (TextGenerator_initial Map.empty))"
       and iprompt = "js ''  ''"
       and iinvoke = "\<lambda>body. Resolves (Some (js ''https://x/1.png'')) None"
       and istringify = "\<lambda>images. js ''[]''" and inow_id = 5 and inow_ts = 6
       and v = "ImageGenerator_initial Map.empty"
       and d = "fst (generateImage (js ''  '')
           (\<lambda>body. Resolves (Some (js ''https://x/1.png'')) None) (\<lambda>images. js ''[]'') 5 6
           (ImageGenerator_initial Map.empty))"
       and v' = "snd (generateImage (js ''  '')
           (\<lambda>body. Resolves (Some (js ''https://x/1.png'')) None) (\<lambda>images. js ''[]'') 5 6
           (ImageGenerator_initial Map.empty))"]
    generate_prompt_validation
    [where prompt = "js ''hi''" and type = "js ''casual''"
       and invoke = "\<lambda>body. Resolves (Some (js ''yo'')) None"
       and stringify = "\<lambda>texts. js ''[]''" and now_id = 5 and now_ts = 6
       and w = "TextGenerator_initial Map.empty"
       and c = "fst (generateText (js ''hi'') (js ''casual'')
           (\<lambda>body. Resolves (Some (js ''yo'')) None) (\<lambda>texts. js ''[]'') 5 6
           (TextGenerator_initial Map.empty))"
       and w' = "snd (generateText (js ''hi'') (js ''casual'')
           (\<lambda>body. Resolves (Some (js ''yo'')) None) (\<lambda>texts. js ''[]'') 5 6
           (TextGenerator_initial Map.empty))"
       and iprompt = "js ''hi''"
       and iinvoke = "\<lambda>body. Resolves (Some (js ''https://x/1.png'')) None"
       and istringify = "\<lambda>images. js ''[]''" and inow_id = 5 and inow_ts = 6
       and v = "ImageGenerator_initial Map.empty"
       and d = "fst (generateImage (js ''hi'')
           (\<lambda>body. Resolves (Some (js ''https://x/1.png'')) None) (\<lambda>images. js ''[]'') 5 6
           (ImageGenerator_initial Map.empty))"
       and v' = "snd (generateImage (js ''hi'')
           (\<lambda>body. Resolves (Some (js ''https://x/1.png'')) None) (\<lambda>images. js ''[]'') 5 6
           (ImageGenerator_initial Map.empty))"]
    blank_js not_blank_js_hi
  by (simp add: TextGenerator_initial_def ImageGenerator_initial_def trim_empty_iff)

text \<open>
  C4. For a prompt that is not blank, \<open>generateText\<close> (\<open>generateImage\<close>) reaches its
  \<open>await\<close> with \<open>isGenerating\<close> set and the invocation issued; whatever the
  gateway then does (a payload, no payload, an error, a rejected promise, even one
  rejected with null, where the \<open>catch\<close> block itself throws), the \<open>finally\<close> block
  leaves \<open>isGenerating\<close> false, from any state the reply arrives in.
\<close>

theorem generate_clears_flag:
  "(trim prompt \<noteq> [] \<longrightarrow>
      generateText_until_await prompt type w =
        (Some \<lparr>body_prompt = prompt, body_type = type\<rparr>,
         w\<lparr>tg_isGenerating := True,
           tg_invoked := tg_invoked w @ [\<lparr>body_prompt = prompt, body_type = type\<rparr>]\<rparr>) \<and>
      \<not> tg_isGenerating (snd (generateText_after_await prompt type reply stringify now_id now_ts w_now)) \<and>
      \<not> tg_isGenerating (snd (generateText prompt type invoke stringify now_id now_ts w))) \<and>
   (trim iprompt \<noteq> [] \<longrightarrow>
      generateImage_until_await iprompt v =
        (Some \<lparr>ibody_prompt = iprompt\<rparr>,
         v\<lparr>ig_isGenerating := True,
           ig_invoked := ig_invoked v @ [\<lparr>ibody_prompt = iprompt\<rparr>]\<rparr>) \<and>
      \<not> ig_isGenerating (snd (generateImage_after_await iprompt ireply istringify inow_id inow_ts v_now)) \<and>
      \<not> ig_isGenerating (snd (generateImage iprompt iinvoke istringify inow_id inow_ts v)))"
proof (intro conjI impI)
  assume ne: "trim prompt \<noteq> []"
  then show "generateText_until_await prompt type w =
        (Some \<lparr>body_prompt = prompt, body_type = type\<rparr>,
         w\<lparr>tg_isGenerating := True,
           tg_invoked := tg_invoked w @ [\<lparr>body_prompt = prompt, body_type = type\<rparr>]\<rparr>)"
    by (simp add: generateText_until_await_def)
  show "\<not> tg_isGenerating (snd (generateText_after_await prompt type reply stringify now_id now_ts w_now))"
    by (rule generateText_after_await_flag)
  show "\<not> tg_isGenerating (snd (generateText prompt type invoke stringify now_id now_ts w))"
    using ne by (simp add: generateText_def generateText_until_await_def generateText_after_await_flag)
next
  assume ne: "trim iprompt \<noteq> []"
  then show "generateImage_until_await iprompt v =
        (Some \<lparr>ibody_prompt = iprompt\<rparr>,
         v\<lparr>ig_isGenerating := True,
           ig_invoked := ig_invoked v @ [\<lparr>ibody_prompt = iprompt\<rparr>]\<rparr>)"
    by (simp add: generateImage_until_await_def)
  show "\<not> ig_isGenerating (snd (generateImage_after_await iprompt ireply istringify inow_id inow_ts v_now))"
    by (rule generateImage_after_await_flag)
  show "\<not> ig_isGenerating (snd (generateImage iprompt iinvoke istringify inow_id inow_ts v))"
    using ne by (simp add: generateImage_def generateImage_until_await_def generateImage_after_await_flag)
qed

theorem generate_clears_flag_witness:
  "trim (js ''hi'') \<noteq> [] \<and>
   tg_isGenerating (snd (generateText_until_await (js ''hi'') (js ''casual'')
       (TextGenerator_initial Map.empty))) \<and>
   \<not> tg_isGenerating (snd (generateText_after_await (js ''hi'') (js ''casual'') (Rejects None)
       (\<lambda>texts. js ''[]'') 5 6 ((TextGenerator_initial Map.empty)\<lparr>tg_isGenerating := True\<rparr>))) \<and>
   ig_isGenerating (snd (generateImage_until_await (js ''hi'') (ImageGenerator_initial Map.empty))) \<and>
   \<not> ig_isGenerating (snd (generateImage_after_await (js ''hi'') (Rejects None)
       (\<lambda>images. js ''[]'') 5 6 ((ImageGenerator_initial Map.empty)\<lparr>ig_isGenerating := True\<rparr>)))"
  using generate_clears_flag
    [where prompt = "js ''hi''" and type = "js ''casual''" and reply = "Rejects None"
       and invoke = "\<lambda>body. Rejects None"
       and stringify = "\<lambda>texts. js ''[]''" and now_id = 5 and now_ts = 6
       and w = "TextGenerator_initial Map.empty"
       and w_now = "(TextGenerator_initial Map.empty)\<lparr>tg_isGenerating := True\<rparr>"
       and iprompt = "js ''hi''" and ireply = "Rejects None"
       and iinvoke = "\<lambda>body. Rejects None"
       and istringify = "\<lambda>images. js ''[]''" and inow_id = 5 and inow_ts = 6
       and v = "ImageGenerator_initial Map.empty"
       and v_now = "(ImageGenerator_initial Map.empty)\<lparr>ig_isGenerating := True\<rparr>"]
  by (simp add: trim_js_hi)

section \<open>Properties of loading, clearing and deleting\<close>

lemma loadTexts_effect_absent:
  "tg_localStorage w texts_key = None \<or>
   (\<exists>saved. tg_localStorage w texts_key = Some saved \<and> (saved = [] \<or> (\<exists>exn. parse saved = Inl exn))) \<Longrightarrow>
   loadTexts_effect parse w = Inr None"
  by (auto simp: loadTexts_effect_def)

lemma loadImages_effect_absent:
  "ig_localStorage w images_key = None \<or>
   (\<exists>saved. ig_localStorage w images_key = Some saved \<and> (saved = [] \<or> (\<exists>exn. parse saved = Inl exn))) \<Longrightarrow>
   loadImages_effect parse w = Inr None"
  by (auto simp: loadImages_effect_def)

lemma loadTexts_effect_returns: "\<exists>r. loadTexts_effect parse w = Inr r"
  by (simp add: loadTexts_effect_def split: option.splits sum.splits)

lemma loadImages_effect_returns: "\<exists>r. loadImages_effect parse w = Inr r"
  by (simp add: loadImages_effect_def split: option.splits sum.splits)

text \<open>A stored string that parses is passed to the setter as it is, whatever it parses to.\<close>

lemma loadTexts_effect_parsed:
  "tg_localStorage w texts_key = Some saved \<Longrightarrow> saved \<noteq> [] \<Longrightarrow> parse saved = Inr parsed \<Longrightarrow>
   loadTexts_effect parse w = Inr (Some parsed)"
  by (simp add: loadTexts_effect_def)

lemma loadImages_effect_parsed:
  "ig_localStorage w images_key = Some saved \<Longrightarrow> saved \<noteq> [] \<Longrightarrow> parse saved = Inr parsed \<Longrightarrow>
   loadImages_effect parse w = Inr (Some parsed)"
  by (simp add: loadImages_effect_def)

text \<open>Without the user's confirmation Clear All does nothing.\<close>

lemma clearAll_onClick_declined:
  "clearAll_onClick False stringify w = w"
  "image_clearAll_onClick False istringify v = v"
  by (simp_all add: clearAll_onClick_def image_clearAll_onClick_def)

lemma saveTexts_effect_initial [simp]:
  "saveTexts_effect stringify (TextGenerator_initial storage) = TextGenerator_initial storage"
  by (simp add: saveTexts_effect_def TextGenerator_initial_def)

lemma saveImages_effect_initial [simp]:
  "saveImages_effect stringify (ImageGenerator_initial storage) = ImageGenerator_initial storage"
  by (simp add: saveImages_effect_def ImageGenerator_initial_def)

text \<open>
  The loading effect itself never throws, whatever the store holds under its key
  and whatever \<open>JSON.parse\<close> does with it. When the key is absent, or holds the empty
  string, or holds a string that \<open>JSON.parse\<close> rejects, the effect leaves the state
  alone, so the mounted component is in its initial state, with an empty
  collection, and the store is as it was.
\<close>

lemma mount_tolerates_unparseable_store:
  "(\<exists>r. loadTexts_effect parse w = Inr r) \<and>
   (storage texts_key = None \<or>
    (\<exists>saved. storage texts_key = Some saved \<and> (saved = [] \<or> (\<exists>exn. parse saved = Inl exn))) \<longrightarrow>
      TextGenerator_mount stringify parse storage = Inr (Some (TextGenerator_initial storage)) \<and>
      tg_texts (TextGenerator_initial storage) = [] \<and>
      tg_localStorage (TextGenerator_initial storage) = storage) \<and>
   (\<exists>r. loadImages_effect iparse v = Inr r) \<and>
   (storage images_key = None \<or>
    (\<exists>saved. storage images_key = Some saved \<and> (saved = [] \<or> (\<exists>exn. iparse saved = Inl exn))) \<longrightarrow>
      ImageGenerator_mount istringify iparse storage = Inr (Some (ImageGenerator_initial storage)) \<and>
      ig_images (ImageGenerator_initial storage) = [] \<and>
      ig_localStorage (ImageGenerator_initial storage) = storage)"
proof (intro conjI impI)
  show "\<exists>r. loadTexts_effect parse w = Inr r" by (rule loadTexts_effect_returns)
  show "\<exists>r. loadImages_effect iparse v = Inr r" by (rule loadImages_effect_returns)
next
  assume "storage texts_key = None \<or>
    (\<exists>saved. storage texts_key = Some saved \<and> (saved = [] \<or> (\<exists>exn. parse saved = Inl exn)))"
  then have "loadTexts_effect parse (TextGenerator_initial storage) = Inr None"
    by (intro loadTexts_effect_absent) (simp add: TextGenerator_initial_def)
  then show "TextGenerator_mount stringify parse storage = Inr (Some (TextGenerator_initial storage))"
    by (simp add: TextGenerator_mount_def)
  show "tg_texts (TextGenerator_initial storage) = []"
    by (simp add: TextGenerator_initial_def)
  show "tg_localStorage (TextGenerator_initial storage) = storage"
    by (simp add: TextGenerator_initial_def)
next
  assume "storage images_key = None \<or>
    (\<exists>saved. storage images_key = Some saved \<and> (saved = [] \<or> (\<exists>exn. iparse saved = Inl exn)))"
  then have "loadImages_effect iparse (ImageGenerator_initial storage) = Inr None"
    by (intro loadImages_effect_absent) (simp add: ImageGenerator_initial_def)
  then show "ImageGenerator_mount istringify iparse storage = Inr (Some (ImageGenerator_initial storage))"
    by (simp add: ImageGenerator_mount_def)
  show "ig_images (ImageGenerator_initial storage) = []"
    by (simp add: ImageGenerator_initial_def)
  show "ig_localStorage (ImageGenerator_initial storage) = storage"
    by (simp add: ImageGenerator_initial_def)
qed

text \<open>
  A stored string that parses reaches the next render unchecked, and what that
  render throws is what the mount throws.
\<close>

lemma TextGenerator_mount_render_throws:
  "storage texts_key = Some saved \<Longrightarrow> saved \<noteq> [] \<Longrightarrow> parse saved = Inr parsed \<Longrightarrow>
   TextGenerator_render parsed = Inl exn \<Longrightarrow>
   TextGenerator_mount stringify parse storage = Inl exn"
  by (simp add: TextGenerator_mount_def loadTexts_effect_def TextGenerator_initial_def)

lemma ImageGenerator_mount_render_throws:
  "storage images_key = Some saved \<Longrightarrow> saved \<noteq> [] \<Longrightarrow> parse saved = Inr parsed \<Longrightarrow>
   ImageGenerator_render parsed = Inl exn \<Longrightarrow>
   ImageGenerator_mount stringify parse storage = Inl exn"
  by (simp add: ImageGenerator_mount_def loadImages_effect_def ImageGenerator_initial_def)

text \<open>The render throws on null, on a non-empty string, and on an array with an element that is null; the text render also on an element without a string \<open>content\<close>.\<close>

lemma render_throws_examples:
  "TextGenerator_render Parsed_null = Inl TypeError"
  "TextGenerator_render (Parsed_string (js ''abc'')) = Inl TypeError"
  "TextGenerator_render (Parsed_array [JNull]) = Inl TypeError"
  "TextGenerator_render (Parsed_array [JObject [(js ''id'', JString (js ''1''))]]) = Inl TypeError"
  "TextGenerator_render (Parsed_array [JNumber]) = Inl TypeError"
  "ImageGenerator_render Parsed_null = Inl TypeError"
  "ImageGenerator_render (Parsed_string (js ''abc'')) = Inl TypeError"
  "ImageGenerator_render (Parsed_array [JNull]) = Inl TypeError"
  by (simp_all add: TextGenerator_render_def ImageGenerator_render_def texts_map_callback_def
      images_map_callback_def getWordCount_def js_def)

lemma render_returns_examples:
  "TextGenerator_render (Parsed_list texts) = Inr ()"
  "TextGenerator_render Parsed_scalar = Inr ()"
  "TextGenerator_render (Parsed_string []) = Inr ()"
  "TextGenerator_render (Parsed_object False) = Inr ()"
  "TextGenerator_render (Parsed_array
     [JObject [(js ''content'', JString (js ''Once upon a time'')), (js ''extra'', JNull)]]) = Inr ()"
  "ImageGenerator_render (Parsed_list images) = Inr ()"
  "ImageGenerator_render (Parsed_array [JNumber]) = Inr ()"
  by (simp_all add: TextGenerator_render_def ImageGenerator_render_def texts_map_callback_def
      images_map_callback_def getWordCount_def js_def)

text \<open>
  C8 (the code at the failing input). The store holds the string \<open>null\<close> under the
  key of the component, and \<open>JSON.parse\<close> turns it into null without throwing. The
  loading effect calls the setter with null, and the render that follows reads
  \<open>texts.length\<close> (\<open>images.length\<close>) of null and throws a \<open>TypeError\<close>: the mount
  throws, where an absent entry gives the initial state.
\<close>

theorem stored_null_crashes_mount:
  "loadTexts_effect (\<lambda>saved. if saved = js ''null'' then Inr Parsed_null else Inl SyntaxError)
     (TextGenerator_initial [texts_key \<mapsto> js ''null'']) = Inr (Some Parsed_null) \<and>
   TextGenerator_mount (\<lambda>texts. js ''[]'')
     (\<lambda>saved. if saved = js ''null'' then Inr Parsed_null else Inl SyntaxError)
     [texts_key \<mapsto> js ''null''] = Inl TypeError \<and>
   TextGenerator_mount (\<lambda>texts. js ''[]'')
     (\<lambda>saved. if saved = js ''null'' then Inr Parsed_null else Inl SyntaxError)
     Map.empty = Inr (Some (TextGenerator_initial Map.empty)) \<and>
   loadImages_effect (\<lambda>saved. if saved = js ''null'' then Inr Parsed_null else Inl SyntaxError)
     (ImageGenerator_initial [images_key \<mapsto> js ''null'']) = Inr (Some Parsed_null) \<and>
   ImageGenerator_mount (\<lambda>images. js ''[]'')
     (\<lambda>saved. if saved = js ''null'' then Inr Parsed_null else Inl SyntaxError)
     [images_key \<mapsto> js ''null''] = Inl TypeError \<and>
   ImageGenerator_mount (\<lambda>images. js ''[]'')
     (\<lambda>saved. if saved = js ''null'' then Inr Parsed_null else Inl SyntaxError)
     Map.empty = Inr (Some (ImageGenerator_initial Map.empty))"
  by (simp add: TextGenerator_mount_def loadTexts_effect_def TextGenerator_render_def
      TextGenerator_initial_def saveTexts_effect_def ImageGenerator_mount_def loadImages_effect_def
      ImageGenerator_render_def ImageGenerator_initial_def saveImages_effect_def)

text \<open>
  C9. The confirmed Clear All leaves the collection empty and the key absent from the
  store, whatever the collection and the store held; the saving effect that follows
  sees an empty collection and writes nothing.
\<close>

theorem clear_empties_collection_and_store:
  "tg_texts (clearAll_onClick True stringify w) = [] \<and>
   tg_localStorage (clearAll_onClick True stringify w) texts_key = None \<and>
   texts_key \<notin> dom (tg_localStorage (clearAll_onClick True stringify w)) \<and>
   ig_images (image_clearAll_onClick True istringify v) = [] \<and>
   ig_localStorage (image_clearAll_onClick True istringify v) images_key = None \<and>
   images_key \<notin> dom (ig_localStorage (image_clearAll_onClick True istringify v))"
  by (simp add: clearAll_onClick_def saveTexts_effect_def image_clearAll_onClick_def
      saveImages_effect_def)

lemma trim_Nil [simp]: "trim [] = []"
  by (simp add: trim_def)

lemma trim_js_joke: "trim (js ''Tell a joke'') \<noteq> []"
  by (simp add: trim_def js_def isWhiteSpace_def)

lemma trim_js_cat: "trim (js ''A cat'') \<noteq> []"
  by (simp add: trim_def js_def isWhiteSpace_def)

theorem clear_empties_collection_and_store_witness:
  "tg_texts (clearAll_onClick True (\<lambda>texts. js ''[]'') TextGenerator_with_story) = [] \<and>
   tg_localStorage TextGenerator_with_story texts_key = Some (js ''[story]'') \<and>
   tg_localStorage (clearAll_onClick True (\<lambda>texts. js ''[]'') TextGenerator_with_story) texts_key = None \<and>
   ig_images (image_clearAll_onClick True (\<lambda>images. js ''[]'') ImageGenerator_with_cityscape) = [] \<and>
   ig_localStorage ImageGenerator_with_cityscape images_key = Some (js ''[cityscape]'') \<and>
   ig_localStorage (image_clearAll_onClick True (\<lambda>images. js ''[]'') ImageGenerator_with_cityscape)
     images_key = None"
  using clear_empties_collection_and_store
    [where stringify = "\<lambda>texts. js ''[]''" and w = TextGenerator_with_story
       and istringify = "\<lambda>images. js ''[]''" and v = ImageGenerator_with_cityscape]
  by (simp add: TextGenerator_with_story_def ImageGenerator_with_cityscape_def)

text \<open>
  C3 (the code at the failing input). After the Generate button has started a request
  for the prompt \<open>Tell a joke\<close>, \<open>isGenerating\<close> is set and the Generate and
  Regenerate buttons are disabled, but Ctrl+Enter in the text area calls
  \<open>generateText\<close> again and a second invocation is issued while the first is
  outstanding. The image generator does the same.
\<close>

theorem second_trigger_invokes_again:
  "tg_isGenerating (snd (generateButton_onClick (TextGenerator_with_story\<lparr>tg_prompt := js ''Tell a joke''\<rparr>))) \<and>
   tg_invoked (snd (generateButton_onClick (TextGenerator_with_story\<lparr>tg_prompt := js ''Tell a joke''\<rparr>))) =
     [\<lparr>body_prompt = js ''Tell a joke'', body_type = js ''creative''\<rparr>] \<and>
   generateButton_disabled (snd (generateButton_onClick (TextGenerator_with_story\<lparr>tg_prompt := js ''Tell a joke''\<rparr>))) \<and>
   regenerateButton_disabled (snd (generateButton_onClick (TextGenerator_with_story\<lparr>tg_prompt := js ''Tell a joke''\<rparr>))) \<and>
   tg_invoked (snd (textarea_onKeyDown (js ''Enter'') True
       (snd (generateButton_onClick (TextGenerator_with_story\<lparr>tg_prompt := js ''Tell a joke''\<rparr>))))) =
     [\<lparr>body_prompt = js ''Tell a joke'', body_type = js ''creative''\<rparr>,
      \<lparr>body_prompt = js ''Tell a joke'', body_type = js ''creative''\<rparr>] \<and>
   ig_isGenerating (snd (image_generateButton_onClick (ImageGenerator_with_cityscape\<lparr>ig_prompt := js ''A cat''\<rparr>))) \<and>
   image_generateButton_disabled (snd (image_generateButton_onClick (ImageGenerator_with_cityscape\<lparr>ig_prompt := js ''A cat''\<rparr>))) \<and>
   image_regenerateButton_disabled (snd (image_generateButton_onClick (ImageGenerator_with_cityscape\<lparr>ig_prompt := js ''A cat''\<rparr>))) \<and>
   ig_invoked (snd (image_textarea_onKeyDown (js ''Enter'') True
       (snd (image_generateButton_onClick (ImageGenerator_with_cityscape\<lparr>ig_prompt := js ''A cat''\<rparr>))))) =
     [\<lparr>ibody_prompt = js ''A cat''\<rparr>, \<lparr>ibody_prompt = js ''A cat''\<rparr>]"
  by (simp add: generateButton_onClick_def generateButton_disabled_def regenerateButton_disabled_def
      textarea_onKeyDown_def generateText_until_await_def TextGenerator_with_story_def
      image_generateButton_onClick_def image_generateButton_disabled_def
      image_regenerateButton_disabled_def image_textarea_onKeyDown_def generateImage_until_await_def
      ImageGenerator_with_cityscape_def trim_js_joke trim_js_cat)

text \<open>
  C5 (the code at the failing input). When the gateway resolves without an error and
  without a payload, or with an empty payload, \<open>generateText\<close> and \<open>generateImage\<close>
  show no toast at all: the invocation is recorded, the flag is cleared and nothing
  else changes.
\<close>

theorem empty_payload_is_silent:
  "generateText (js ''Tell a joke'') (js ''casual'') (\<lambda>body. Resolves None None)
       (\<lambda>texts. js ''[]'') 5 6 (TextGenerator_initial Map.empty) =
     (Fulfilled, (TextGenerator_initial Map.empty)
        \<lparr>tg_invoked := [\<lparr>body_prompt = js ''Tell a joke'', body_type = js ''casual''\<rparr>]\<rparr>) \<and>
   tg_toasts (snd (generateText (js ''Tell a joke'') (js ''casual'') (\<lambda>body. Resolves None None)
       (\<lambda>texts. js ''[]'') 5 6 (TextGenerator_initial Map.empty))) = [] \<and>
   tg_toasts (snd (generateText (js ''Tell a joke'') (js ''casual'') (\<lambda>body. Resolves (Some []) None)
       (\<lambda>texts. js ''[]'') 5 6 (TextGenerator_initial Map.empty))) = [] \<and>
   generateImage (js ''A cat'') (\<lambda>body. Resolves None None)
       (\<lambda>images. js ''[]'') 5 6 (ImageGenerator_initial Map.empty) =
     (Fulfilled, (ImageGenerator_initial Map.empty)\<lparr>ig_invoked := [\<lparr>ibody_prompt = js ''A cat''\<rparr>]\<rparr>) \<and>
   ig_toasts (snd (generateImage (js ''A cat'') (\<lambda>body. Resolves None None)
       (\<lambda>images. js ''[]'') 5 6 (ImageGenerator_initial Map.empty))) = [] \<and>
   ig_toasts (snd (generateImage (js ''A cat'') (\<lambda>body. Resolves (Some []) None)
       (\<lambda>images. js ''[]'') 5 6 (ImageGenerator_initial Map.empty))) = []"
  by (simp add: generateText_def generateText_until_await_def generateText_after_await_def
      generateText_try_def generateText_finally_def TextGenerator_initial_def
      generateImage_def generateImage_until_await_def generateImage_after_await_def
      generateImage_try_def generateImage_finally_def ImageGenerator_initial_def
      trim_js_joke trim_js_cat)

text \<open>
  C6 (the code at the failing input). Right after the story has been generated the
  prompt state is empty. The Regenerate button of the story sets the prompt and type
  for the next render and calls the \<open>generateText\<close> of the current one, which still
  sees the empty prompt: the user gets \<open>Prompt required\<close> and no invocation is
  issued. With another prompt typed in, the invocation carries that prompt and the
  selected type, not the story's. The image generator does the same.
\<close>

theorem regenerate_uses_stale_prompt:
  "regenerateButton_onClick story TextGenerator_with_story =
     (None, TextGenerator_with_story
        \<lparr>tg_prompt := js ''Write a short story'', tg_type := js ''creative'',
          tg_toasts := [\<lparr>title = js ''Prompt required'',
                         description = js ''Please enter a description for your text'',
                         variant = Destructive\<rparr>]\<rparr>) \<and>
   tg_invoked (snd (regenerateButton_onClick story TextGenerator_with_story)) = [] \<and>
   fst (regenerateButton_onClick story
       (TextGenerator_with_story\<lparr>tg_prompt := js ''Tell a joke'', tg_type := js ''casual''\<rparr>)) =
     Some \<lparr>body_prompt = js ''Tell a joke'', body_type = js ''casual''\<rparr> \<and>
   body_prompt \<lparr>body_prompt = js ''Tell a joke'', body_type = js ''casual''\<rparr> \<noteq> text_prompt story \<and>
   image_regenerateButton_onClick cityscape ImageGenerator_with_cityscape =
     (None, ImageGenerator_with_cityscape
        \<lparr>ig_prompt := js ''A futuristic cyberpunk cityscape at night'',
          ig_toasts := [\<lparr>title = js ''Prompt required'',
                         description = js ''Please enter a description for your image'',
                         variant = Destructive\<rparr>]\<rparr>) \<and>
   ig_invoked (snd (image_regenerateButton_onClick cityscape ImageGenerator_with_cityscape)) = [] \<and>
   fst (image_regenerateButton_onClick cityscape
       (ImageGenerator_with_cityscape\<lparr>ig_prompt := js ''A cat''\<rparr>)) =
     Some \<lparr>ibody_prompt = js ''A cat''\<rparr> \<and>
   ibody_prompt \<lparr>ibody_prompt = js ''A cat''\<rparr> \<noteq> image_prompt cityscape"
  by (simp add: regenerateButton_onClick_def regenerateButton_disabled_def
      regenerateText_until_await_def generateText_until_await_def TextGenerator_with_story_def
      story_def image_regenerateButton_onClick_def image_regenerateButton_disabled_def
      regenerateImage_until_await_def generateImage_until_await_def
      ImageGenerator_with_cityscape_def cityscape_def trim_js_joke trim_js_cat)
     (simp add: js_def)

lemma saveTexts_effect_in_sync:
  "tg_texts w \<noteq> [] \<Longrightarrow>
   tg_localStorage (saveTexts_effect stringify w) texts_key = Some (stringify (tg_texts w))"
  by (simp add: saveTexts_effect_def)

lemma saveTexts_effect_empty: "tg_texts w = [] \<Longrightarrow> saveTexts_effect stringify w = w"
  by (simp add: saveTexts_effect_def)

lemma saveImages_effect_empty: "ig_images v = [] \<Longrightarrow> saveImages_effect stringify v = v"
  by (simp add: saveImages_effect_def)

lemma tg_texts_saveTexts_effect [simp]: "tg_texts (saveTexts_effect stringify w) = tg_texts w"
  by (simp add: saveTexts_effect_def)

lemma deleteText_texts:
  "tg_texts (deleteText i stringify w) = filter (\<lambda>t. text_id t \<noteq> i) (tg_texts w)"
  by (simp add: deleteText_def)

lemma deleteText_storage:
  "tg_localStorage (deleteText i stringify w) =
     (if filter (\<lambda>t. text_id t \<noteq> i) (tg_texts w) = [] then tg_localStorage w
      else (tg_localStorage w)(texts_key \<mapsto> stringify (filter (\<lambda>t. text_id t \<noteq> i) (tg_texts w))))"
  by (simp add: deleteText_def saveTexts_effect_def)

lemma mount_restores_saved_texts:
  assumes "storage texts_key = Some saved" and "saved \<noteq> []"
    and "parse saved = Inr (Parsed_list texts)"
  shows "\<exists>w'. TextGenerator_mount stringify parse storage = Inr (Some w') \<and> tg_texts w' = texts"
  using assms
  by (simp add: TextGenerator_mount_def loadTexts_effect_def TextGenerator_render_def
      TextGenerator_initial_def)

text \<open>
  C10. When \<open>deleteText\<close> leaves the collection empty, the saving effect writes
  nothing and the store is exactly as before the removal; when it leaves artifacts,
  the effect overwrites the entry with what is left. So if the entry held the
  collection as saved before the removal, it still does, and the next mount (with a
  \<open>JSON.parse\<close> that reads that entry back) restores the whole earlier collection,
  the removed artifact included. The saving effect of the image generator has the
  same guard: with no images it leaves the store alone.
\<close>

theorem delete_last_keeps_persisted_entry:
  "(filter (\<lambda>t. text_id t \<noteq> i) (tg_texts w) = [] \<longrightarrow>
      tg_texts (deleteText i stringify w) = [] \<and>
      tg_localStorage (deleteText i stringify w) = tg_localStorage w) \<and>
   (filter (\<lambda>t. text_id t \<noteq> i) (tg_texts w) \<noteq> [] \<longrightarrow>
      tg_localStorage (deleteText i stringify w) =
        (tg_localStorage w)(texts_key \<mapsto> stringify (filter (\<lambda>t. text_id t \<noteq> i) (tg_texts w)))) \<and>
   (filter (\<lambda>t. text_id t \<noteq> i) (tg_texts w) = [] \<longrightarrow>
    tg_localStorage w texts_key = Some (stringify (tg_texts w)) \<longrightarrow>
    stringify (tg_texts w) \<noteq> [] \<longrightarrow>
    parse (stringify (tg_texts w)) = Inr (Parsed_list (tg_texts w)) \<longrightarrow>
      (\<exists>w'. TextGenerator_mount stringify parse (tg_localStorage (deleteText i stringify w)) =
             Inr (Some w') \<and> tg_texts w' = tg_texts w)) \<and>
   (ig_images v = [] \<longrightarrow> saveImages_effect istringify v = v)"
proof (intro conjI impI)
  assume "filter (\<lambda>t. text_id t \<noteq> i) (tg_texts w) = []"
  then show "tg_texts (deleteText i stringify w) = []"
    and "tg_localStorage (deleteText i stringify w) = tg_localStorage w"
    by (simp_all add: deleteText_texts deleteText_storage)
next
  assume "filter (\<lambda>t. text_id t \<noteq> i) (tg_texts w) \<noteq> []"
  then show "tg_localStorage (deleteText i stringify w) =
        (tg_localStorage w)(texts_key \<mapsto> stringify (filter (\<lambda>t. text_id t \<noteq> i) (tg_texts w)))"
    by (simp add: deleteText_storage)
next
  assume empty: "filter (\<lambda>t. text_id t \<noteq> i) (tg_texts w) = []"
    and saved: "tg_localStorage w texts_key = Some (stringify (tg_texts w))"
    and ne: "stringify (tg_texts w) \<noteq> []"
    and reread: "parse (stringify (tg_texts w)) = Inr (Parsed_list (tg_texts w))"
  have "tg_localStorage (deleteText i stringify w) texts_key = Some (stringify (tg_texts w))"
    using empty saved by (simp add: deleteText_storage)
  from mount_restores_saved_texts
    [where storage = "tg_localStorage (deleteText i stringify w)"
       and saved = "stringify (tg_texts w)" and parse = parse and texts = "tg_texts w"
       and stringify = stringify, OF this ne reread]
  show "\<exists>w'. TextGenerator_mount stringify parse (tg_localStorage (deleteText i stringify w)) =
             Inr (Some w') \<and> tg_texts w' = tg_texts w" .
next
  assume "ig_images v = []"
  then show "saveImages_effect istringify v = v" by (rule saveImages_effect_empty)
qed

theorem delete_last_keeps_persisted_entry_witness:
  "tg_texts TextGenerator_with_story = [story] \<and>
   tg_texts (deleteText (text_id story) (\<lambda>texts. js ''[story]'') TextGenerator_with_story) = [] \<and>
   tg_localStorage (deleteText (text_id story) (\<lambda>texts. js ''[story]'') TextGenerator_with_story) =
     [texts_key \<mapsto> js ''[story]''] \<and>
   (\<exists>w'. TextGenerator_mount (\<lambda>texts. js ''[story]'') (\<lambda>saved. Inr (Parsed_list [story]))
           (tg_localStorage (deleteText (text_id story) (\<lambda>texts. js ''[story]'')
              TextGenerator_with_story)) = Inr (Some w') \<and>
         tg_texts w' = [story])"
proof -
  note th = delete_last_keeps_persisted_entry
    [where i = "text_id story" and stringify = "\<lambda>texts. js ''[story]''"
       and parse = "\<lambda>saved. Inr (Parsed_list [story])" and w = TextGenerator_with_story
       and v = "ImageGenerator_initial Map.empty" and istringify = "\<lambda>images. js ''[]''"]
  have texts: "tg_texts TextGenerator_with_story = [story]"
    by (simp add: TextGenerator_with_story_def)
  have empty: "filter (\<lambda>t. text_id t \<noteq> text_id story) (tg_texts TextGenerator_with_story) = []"
    by (simp add: texts)
  have saved: "tg_localStorage TextGenerator_with_story texts_key = Some (js ''[story]'')"
    by (simp add: TextGenerator_with_story_def)
  have reread: "Inr (Parsed_list [story]) = (Inr (Parsed_list (tg_texts TextGenerator_with_story))
      :: js_exn + GeneratedText parsed)"
    by (simp add: texts)
  have ne: "js ''[story]'' \<noteq> []"
    by simp
  from th empty
  have 1: "tg_texts (deleteText (text_id story) (\<lambda>texts. js ''[story]'') TextGenerator_with_story) = []"
    and 2: "tg_localStorage (deleteText (text_id story) (\<lambda>texts. js ''[story]'')
              TextGenerator_with_story) = tg_localStorage TextGenerator_with_story"
    by blast+
  from th empty saved ne reread
  have 3: "\<exists>w'. TextGenerator_mount (\<lambda>texts. js ''[story]'') (\<lambda>saved. Inr (Parsed_list [story]))
           (tg_localStorage (deleteText (text_id story) (\<lambda>texts. js ''[story]'')
              TextGenerator_with_story)) = Inr (Some w') \<and>
         tg_texts w' = tg_texts TextGenerator_with_story"
    by blast
  show ?thesis
  proof (intro conjI)
    show "tg_texts TextGenerator_with_story = [story]" by (rule texts)
    show "tg_texts (deleteText (text_id story) (\<lambda>texts. js ''[story]'') TextGenerator_with_story) = []"
      by (rule 1)
    show "tg_localStorage (deleteText (text_id story) (\<lambda>texts. js ''[story]'')
        TextGenerator_with_story) = [texts_key \<mapsto> js ''[story]'']"
      using 2 by (simp add: TextGenerator_with_story_def)
    show "\<exists>w'. TextGenerator_mount (\<lambda>texts. js ''[story]'') (\<lambda>saved. Inr (Parsed_list [story]))
           (tg_localStorage (deleteText (text_id story) (\<lambda>texts. js ''[story]'')
              TextGenerator_with_story)) = Inr (Some w') \<and>
         tg_texts w' = [story]"
      using 3 by (simp only: texts)
  qed
qed

section \<open>What a failed generation does\<close>

text \<open>
  An error in the reply, or a rejection with a value, is reported once, by the
  destructive toast \<open>Generation failed\<close> with the error's message, or with the
  fallback when the message is absent or empty.
\<close>

lemma generateText_failure_reported:
  "reply = Resolves payload (Some error) \<or> reply = Rejects (Some error) \<Longrightarrow>
   generateText_after_await prompt type reply stringify now_id now_ts w =
     (Fulfilled,
      w\<lparr>tg_toasts := tg_toasts w @
           [\<lparr>title = js ''Generation failed'',
             description = message_or error (js ''Failed to generate text. Please try again.''),
             variant = Destructive\<rparr>],
        tg_isGenerating := False\<rparr>)"
  by (auto simp: generateText_after_await_def generateText_try_def generateText_catch_def
      generateText_finally_def)

lemma generateImage_failure_reported:
  "reply = Resolves payload (Some error) \<or> reply = Rejects (Some error) \<Longrightarrow>
   generateImage_after_await prompt reply stringify now_id now_ts w =
     (Fulfilled,
      w\<lparr>ig_toasts := ig_toasts w @
           [\<lparr>title = js ''Generation failed'',
             description = message_or error (js ''Failed to generate image. Please try again.''),
             variant = Destructive\<rparr>],
        ig_isGenerating := False\<rparr>)"
  by (auto simp: generateImage_after_await_def generateImage_try_def generateImage_catch_def
      generateImage_finally_def)

lemma message_or_passes_message:
  "message_or (Error_value (Some m)) fallback = (if m = [] then fallback else m)"
  "message_or (Error_value None) fallback = fallback"
  by (simp_all add: message_or_def)

text \<open>Unless the reply has no error and a non-empty payload, the collection and the store stay as they are.\<close>

lemma generateText_unusable_keeps_texts:
  "\<not> (\<exists>payload. reply = Resolves (Some payload) None \<and> payload \<noteq> []) \<Longrightarrow>
   tg_texts (snd (generateText_after_await prompt type reply stringify now_id now_ts w)) = tg_texts w \<and>
   tg_localStorage (snd (generateText_after_await prompt type reply stringify now_id now_ts w)) =
     tg_localStorage w"
  by (auto simp: generateText_after_await_def generateText_try_def generateText_catch_def
      generateText_finally_def split: gateway_reply.splits option.splits)

lemma generateImage_unusable_keeps_images:
  "\<not> (\<exists>payload. reply = Resolves (Some payload) None \<and> payload \<noteq> []) \<Longrightarrow>
   ig_images (snd (generateImage_after_await prompt reply stringify now_id now_ts w)) = ig_images w \<and>
   ig_localStorage (snd (generateImage_after_await prompt reply stringify now_id now_ts w)) =
     ig_localStorage w"
  by (auto simp: generateImage_after_await_def generateImage_try_def generateImage_catch_def
      generateImage_finally_def split: gateway_reply.splits option.splits)

end
